theory Spec2Isabelle
  imports Complex_Main "HOL-Library.AList"
begin

section \<open>RAKSHAK-AI: risk classification, alert lifecycle and run controller\<close>

text \<open>
  A shallow embedding of \<^verbatim>\<open>server/app/services/intent_service.py\<close>,
  \<^verbatim>\<open>server/app/services/alert_service.py\<close>, \<^verbatim>\<open>server/app/utils/safe_math.py\<close>,
  \<^verbatim>\<open>server/app/config.py\<close>, \<^verbatim>\<open>server/app/simulation_controller.py\<close> and the parts of
  \<^verbatim>\<open>server/app/services/audit_service.py\<close> and of the routers that the alert routes use.

  Conventions of the embedding:
  \<^item> Python floats are modelled as real numbers (type \<open>real\<close>); NaN and the infinities
    are not values of the model.
  \<^item> A \<^verbatim>\<open>datetime\<close> is a real number of seconds; \<^verbatim>\<open>(a - b).total_seconds()\<close> is
    \<open>a - b\<close> and \<^verbatim>\<open>timedelta(hours=1)\<close> is \<open>3600\<close>.
  \<^item> Every reading of \<^verbatim>\<open>datetime.utcnow()\<close> and every \<^verbatim>\<open>uuid.uuid4().hex\<close> is an explicit
    argument of the function that reads it.
  \<^item> Mutation of a service object is explicit state passing.
\<close>

subsection \<open>Enumerations and configuration (config.py, models)\<close>

datatype SeverityLevel = LOW | MEDIUM | HIGH | CRITICAL

datatype TamperingClassification = SAFE | SUSPICIOUS | CONFIRMED_TAMPERING

datatype DetectionClass =
    MISSING_FISH_PLATE | FOREIGN_OBJECT | TRACK_DISPLACEMENT | HUMAN_PRESENCE
  | TOOL_DETECTION | VEHICLE_NEAR_TRACK | NORMAL

text \<open>
  \<^verbatim>\<open>AnomalyType\<close> and \<^verbatim>\<open>AnomalySeverity\<close> of models/sensor.py; their members
  \<^verbatim>\<open>NORMAL\<close> and \<^verbatim>\<open>NONE\<close> are written \<open>NORMAL_READING\<close> and \<open>NO_SEVERITY\<close>.
\<close>

datatype AnomalyType =
    ENVIRONMENTAL_NOISE | MECHANICAL_WEAR | SUDDEN_CHANGE | COORDINATED_ANOMALY
  | SENSOR_FAILURE | NORMAL_READING

datatype AnomalySeverity = NO_SEVERITY | MINOR | MODERATE | SEVERE

text \<open>The keys of \<^verbatim>\<open>Config.TIME_WEIGHTS\<close> are a closed set of four strings.\<close>

datatype TimeBand = night_hours | early_morning | peak_hours | maintenance_window

text \<open>
  The attributes of class \<^verbatim>\<open>Config\<close> that the modelled functions read. The two dictionaries
  iterated or looked up by key are: \<open>SEVERITY_THRESHOLDS\<close>, an association list in
  insertion order (the order \<^verbatim>\<open>.items()\<close> yields), and \<open>ESCALATION_TIMEOUT\<close>, which has an
  entry for every severity and is a total function. \<open>VISION_WEIGHTS\<close> and
  \<open>SENSOR_WEIGHTS\<close> are read with \<^verbatim>\<open>.get(member.value, 10)\<close>: they are maps from the
  enumeration whose values are the keys, \<open>None\<close> where the dictionary has no such key.
\<close>

record Config =
  RISK_THRESHOLD_SAFE :: real
  RISK_THRESHOLD_SUSPICIOUS :: real
  SEVERITY_THRESHOLDS :: "(SeverityLevel \<times> real \<times> real) list"
  TIME_WEIGHTS :: "TimeBand \<Rightarrow> real"
  ALERT_COOLDOWN_SECONDS :: real
  MAX_ALERTS_PER_HOUR :: nat
  ESCALATION_TIMEOUT :: "SeverityLevel \<Rightarrow> real"
  MAX_AUDIT_LOG_ENTRIES :: nat
  VISION_WEIGHTS :: "DetectionClass \<rightharpoonup> real"
  SENSOR_WEIGHTS :: "AnomalyType \<rightharpoonup> real"

definition config :: Config where
  "config = \<lparr>
     RISK_THRESHOLD_SAFE = 25,
     RISK_THRESHOLD_SUSPICIOUS = 60,
     SEVERITY_THRESHOLDS = [(LOW, 25, 49), (MEDIUM, 50, 69), (HIGH, 70, 84), (CRITICAL, 85, 100)],
     TIME_WEIGHTS = (\<lambda>b. case b of night_hours \<Rightarrow> 13 / 10 | early_morning \<Rightarrow> 12 / 10
                              | peak_hours \<Rightarrow> 9 / 10 | maintenance_window \<Rightarrow> 5 / 10),
     ALERT_COOLDOWN_SECONDS = 300,
     MAX_ALERTS_PER_HOUR = 10,
     ESCALATION_TIMEOUT = (\<lambda>s. case s of LOW \<Rightarrow> 1800 | MEDIUM \<Rightarrow> 900 | HIGH \<Rightarrow> 300
                                    | CRITICAL \<Rightarrow> 60),
     MAX_AUDIT_LOG_ENTRIES = 10000,
     VISION_WEIGHTS = (\<lambda>c. case c of MISSING_FISH_PLATE \<Rightarrow> Some 35 | FOREIGN_OBJECT \<Rightarrow> Some 25
                               | TRACK_DISPLACEMENT \<Rightarrow> Some 40 | HUMAN_PRESENCE \<Rightarrow> Some 20
                               | TOOL_DETECTION \<Rightarrow> Some 30 | VEHICLE_NEAR_TRACK \<Rightarrow> Some 15
                               | NORMAL \<Rightarrow> None),
     SENSOR_WEIGHTS = (\<lambda>t. case t of SUDDEN_CHANGE \<Rightarrow> Some 35 | COORDINATED_ANOMALY \<Rightarrow> Some 40
                               | _ \<Rightarrow> None)
   \<rparr>"

subsection \<open>Numeric guard layer (utils/safe_math.py)\<close>

datatype MathFallbackReason =
    DENOMINATOR_ZERO | EMPTY_ARRAY | ALL_WEIGHTS_ZERO | NO_VALID_VALUES
  | NEGATIVE_VALUE | OVERFLOW_PROTECTION | NORMALIZATION_FALLBACK

definition safe_clamp :: "real \<Rightarrow> real \<Rightarrow> real \<Rightarrow> real" where
  "safe_clamp v min_val max_val = max min_val (min max_val v)"

definition safe_risk_score :: "real \<Rightarrow> real \<Rightarrow> real \<Rightarrow> real \<times> MathFallbackReason option" where
  "safe_risk_score raw_score min_score max_score =
     (if raw_score < min_score then (min_score, Some NEGATIVE_VALUE)
      else if raw_score > max_score then (max_score, Some OVERFLOW_PROTECTION)
      else (raw_score, None))"

text \<open>
  Python's built-in \<^verbatim>\<open>round(x, ndigits)\<close>: the nearest multiple of \<open>10 ^ -ndigits\<close>, an exact
  tie going to the even neighbour.
\<close>

definition py_round :: "real \<Rightarrow> nat \<Rightarrow> real" where
  "py_round x ndigits =
     (let s = 10 ^ ndigits; y = x * s; f = \<lfloor>y\<rfloor>; d = y - of_int f
      in of_int (if d < 1 / 2 then f else if 1 / 2 < d then f + 1
                 else if even f then f else f + 1) / s)"

subsection \<open>Evidence and temporal context (models/vision.py, models/sensor.py, models/intent.py)\<close>

text \<open>
  Only the fields that the classification and the numeric fields of its risk factors read
  are kept; bounding boxes, observed values, risk reasons and processing metadata feed the
  explanation texts alone.
\<close>

record Detection =
  detection_id :: string
  class_label :: DetectionClass
  confidence :: real

record VisionAnalysisResponse =
  vision_analysis_id :: string
  detections :: "Detection list"
  vision_risk_score :: real

record SensorAnomaly =
  anomaly_id :: string
  anomaly_type :: AnomalyType
  anomaly_severity :: AnomalySeverity
  isolation_score :: "real option"

record SensorAnalysisResponse =
  sensor_analysis_id :: string
  anomalies :: "SensorAnomaly list"
  is_coordinated :: bool
  coordination_confidence :: "real option"
  sensor_risk_score :: real
  sabotage_likelihood :: real

datatype TemporalNote = NightNote | EarlyMorningNote | PeakNote

record TemporalContext =
  hour_of_day :: nat
  is_night_hours :: bool
  is_peak_hours :: bool
  is_maintenance_window :: bool
  time_risk_modifier :: real
  temporal_notes :: "TemporalNote list"

definition calculate_temporal_context :: "Config \<Rightarrow> nat \<Rightarrow> TemporalContext" where
  "calculate_temporal_context cfg hour =
     (let is_night = (hour \<ge> 22 \<or> hour < 5);
          is_early_morning = (5 \<le> hour \<and> hour < 7);
          is_peak = ((7 \<le> hour \<and> hour < 10) \<or> (17 \<le> hour \<and> hour < 20));
          modifier = (if is_night then TIME_WEIGHTS cfg night_hours
                      else if is_early_morning then TIME_WEIGHTS cfg early_morning
                      else if is_peak then TIME_WEIGHTS cfg peak_hours
                      else 1);
          notes = (if is_night then [NightNote] else [])
                @ (if is_early_morning then [EarlyMorningNote] else [])
                @ (if is_peak then [PeakNote] else [])
      in \<lparr> hour_of_day = hour, is_night_hours = is_night, is_peak_hours = is_peak,
           is_maintenance_window = False, time_risk_modifier = modifier,
           temporal_notes = notes \<rparr>)"

subsection \<open>Intent classification (services/intent\_service.py)\<close>

text \<open>
  The loop over the detections at the start of \<^verbatim>\<open>_determine_classification\<close>: it returns
  from the function at the first detection of class \<^verbatim>\<open>missing_fish_plate\<close> or
  \<^verbatim>\<open>track_displacement\<close> whose confidence is at least 0.85.
\<close>

fun override_scan :: "Detection list \<Rightarrow> (TamperingClassification \<times> real) option" where
  "override_scan [] = None"
| "override_scan (d # ds) =
     (if class_label d = MISSING_FISH_PLATE \<or> class_label d = TRACK_DISPLACEMENT
      then (if confidence d \<ge> 85 / 100 then Some (CONFIRMED_TAMPERING, confidence d)
            else override_scan ds)
      else override_scan ds)"

definition threshold_classification :: "Config \<Rightarrow> real \<Rightarrow> TamperingClassification \<times> real" where
  "threshold_classification cfg risk_score =
     (let threshold_safe = max (RISK_THRESHOLD_SAFE cfg) (1 / 100);
          threshold_suspicious = max (RISK_THRESHOLD_SUSPICIOUS cfg) (threshold_safe + 1 / 100);
          suspicious_range = threshold_suspicious - threshold_safe;
          tampering_range = 100 - threshold_suspicious
      in if risk_score < threshold_safe then
           (let c = (if threshold_safe > 0 then 1 - risk_score / threshold_safe else 1)
            in (SAFE, py_round (max c 0) 2))
         else if risk_score < threshold_suspicious then
           (let c = (if suspicious_range > 0
                     then 5 / 10 + (risk_score - threshold_safe) / suspicious_range * (3 / 10)
                     else 65 / 100)
            in (SUSPICIOUS, py_round c 2))
         else
           (let c = (if tampering_range > 0
                     then 7 / 10 + (risk_score - threshold_suspicious) / tampering_range * (3 / 10)
                     else 85 / 100)
            in (CONFIRMED_TAMPERING, py_round (min c 1) 2)))"

definition determine_classification ::
  "Config \<Rightarrow> real \<Rightarrow> VisionAnalysisResponse option \<Rightarrow> SensorAnalysisResponse option
     \<Rightarrow> TamperingClassification \<times> real" where
  "determine_classification cfg risk_score vision_analysis sensor_analysis =
     (case (case vision_analysis of None \<Rightarrow> None | Some va \<Rightarrow> override_scan (detections va)) of
        Some res \<Rightarrow> res
      | None \<Rightarrow>
          (case sensor_analysis of
             Some sa \<Rightarrow>
               if is_coordinated sa \<and> sabotage_likelihood sa \<ge> 7 / 10
               then (CONFIRMED_TAMPERING, sabotage_likelihood sa)
               else threshold_classification cfg risk_score
           | None \<Rightarrow> threshold_classification cfg risk_score))"

text \<open>Step 4 of \<^verbatim>\<open>classify\<close>: the weighted combination and the temporal modifier.\<close>

definition base_score :: "real \<Rightarrow> real \<Rightarrow> real" where
  "base_score vision_score sensor_score = vision_score * (45 / 100) + sensor_score * (45 / 100)"

text \<open>
  The part of the response that is computed from the evidence. \<open>resp_clamp_reason\<close> is the
  reason code that step 4 logs; it is not a field of the Python response.
\<close>

record IntentClassifyResponse =
  resp_classification_id :: string
  resp_zone_id :: string
  resp_classification :: TamperingClassification
  resp_risk_score :: real
  resp_confidence :: real
  resp_vision_risk_score :: real
  resp_sensor_risk_score :: real
  resp_temporal_modifier :: real
  resp_clamp_reason :: "MathFallbackReason option"

text \<open>
  The values that steps 4 and 6 of \<^verbatim>\<open>IntentService.classify\<close> compute for the fields of the
  response, from the analyses of steps 1 and 2 (either may be absent) and the temporal
  context of step 3. The classification id is \<^verbatim>\<open>"cls_" + uuid4().hex[:12]\<close>. This is the
  arithmetic of the call alone: the field constraints that the constructors of
  \<^verbatim>\<open>TemporalContext\<close>, \<^verbatim>\<open>RiskFactor\<close> and \<^verbatim>\<open>IntentClassifyResponse\<close> enforce, and the
  \<^verbatim>\<open>ValidationError\<close> they raise, are in \<open>IntentService_classify\<close> below, which is the
  whole call.
\<close>

definition classify ::
  "Config \<Rightarrow> string \<Rightarrow> string \<Rightarrow> VisionAnalysisResponse option \<Rightarrow> SensorAnalysisResponse option
     \<Rightarrow> TemporalContext \<Rightarrow> IntentClassifyResponse" where
  "classify cfg uuid_hex zone vision_analysis sensor_analysis temporal_context =
     (let vision_score0 = (case vision_analysis of Some va \<Rightarrow> vision_risk_score va | None \<Rightarrow> 0);
          sensor_score0 = (case sensor_analysis of Some sa \<Rightarrow> sensor_risk_score sa | None \<Rightarrow> 0);
          vision_score = safe_clamp vision_score0 0 100;
          sensor_score = safe_clamp sensor_score0 0 100;
          temporal_mod = max (time_risk_modifier temporal_context) 0;
          final_raw = base_score vision_score sensor_score * temporal_mod;
          (final_score, clamp_reason) = safe_risk_score final_raw 0 100;
          (classification, conf) =
             determine_classification cfg final_score vision_analysis sensor_analysis
      in \<lparr> resp_classification_id = ''cls_'' @ take 12 uuid_hex,
           resp_zone_id = zone,
           resp_classification = classification,
           resp_risk_score = py_round final_score 2,
           resp_confidence = conf,
           resp_vision_risk_score = vision_score,
           resp_sensor_risk_score = sensor_score,
           resp_temporal_modifier = time_risk_modifier temporal_context,
           resp_clamp_reason = clamp_reason \<rparr>)"

text \<open>
  The contract of the evidence providers (the \<^verbatim>\<open>ge=0, le=1\<close> constraints of
  \<^verbatim>\<open>Detection.confidence\<close> and \<^verbatim>\<open>SensorAnalysisResponse.sabotage_likelihood\<close>).
\<close>

definition provider_contract ::
  "VisionAnalysisResponse option \<Rightarrow> SensorAnalysisResponse option \<Rightarrow> bool" where
  "provider_contract vision_analysis sensor_analysis =
     ((case vision_analysis of None \<Rightarrow> True
       | Some va \<Rightarrow> list_all (\<lambda>d. 0 \<le> confidence d \<and> confidence d \<le> 1) (detections va))
    \<and> (case sensor_analysis of None \<Rightarrow> True
       | Some sa \<Rightarrow> 0 \<le> sabotage_likelihood sa \<and> sabotage_likelihood sa \<le> 1))"

text \<open>A detection that fires the vision override rule.\<close>

definition high_confidence_override :: "Detection \<Rightarrow> bool" where
  "high_confidence_override d =
     ((class_label d = MISSING_FISH_PLATE \<or> class_label d = TRACK_DISPLACEMENT)
      \<and> confidence d \<ge> 85 / 100)"

subsection \<open>Alerts (models/alert.py)\<close>

datatype AlertStatus =
  ACTIVE | ACKNOWLEDGED | INVESTIGATING | RESOLVED | ESCALATED | FALSE_POSITIVE

datatype EscalationLevel = INITIAL | SUPERVISOR | MANAGER | EMERGENCY

text \<open>
  The exceptions that the classification and alert code itself can raise: pydantic's
  \<^verbatim>\<open>ValidationError\<close> on a field constraint, and the \<^verbatim>\<open>ValueError\<close> of
  \<^verbatim>\<open>EscalationLevel(n)\<close> for an \<open>n\<close> that is no member's value.
\<close>

datatype alert_error = ValidationError | ValueError

fun escalation_value :: "EscalationLevel \<Rightarrow> int" where
  "escalation_value INITIAL = 1"
| "escalation_value SUPERVISOR = 2"
| "escalation_value MANAGER = 3"
| "escalation_value EMERGENCY = 4"

definition EscalationLevel_of :: "int \<Rightarrow> alert_error + EscalationLevel" where
  "EscalationLevel_of n =
     (if n = 1 then Inr INITIAL else if n = 2 then Inr SUPERVISOR
      else if n = 3 then Inr MANAGER else if n = 4 then Inr EMERGENCY
      else Inl ValueError)"

text \<open>
  The title and the description are formatted strings with non-ASCII symbols; the model
  keeps which of the two templates was used and the values formatted into it.
\<close>

datatype AlertTitle = TamperingDetected string | SuspiciousActivity string

datatype AlertDescription = HighConfidenceEvidence real | SuspiciousAnomalies real

record Alert =
  alert_id :: string
  zone_id :: string
  classification_id :: string
  severity :: SeverityLevel
  status :: AlertStatus
  risk_score :: real
  classification :: TamperingClassification
  title :: AlertTitle
  description :: AlertDescription
  reasons :: "string list"
  created_at :: real
  updated_at :: real
  expires_at :: "real option"
  acknowledged :: bool
  acknowledged_by :: "string option"
  acknowledged_at :: "real option"
  acknowledgement_notes :: "string option"
  escalation_level :: EscalationLevel
  escalated_at :: "real option"
  resolved_at :: "real option"
  resolution_notes :: "string option"
  evidence_urls :: "string list"
  is_simulated :: bool

record AlertAcknowledgeRequest =
  ack_alert_id :: string
  ack_acknowledged_by :: string
  ack_notes :: "string option"
  mark_as_false_positive :: bool

record AlertResolveRequest =
  req_alert_id :: string
  resolved_by :: string
  req_resolution_notes :: string
  was_actual_tampering :: bool

text \<open>
  Construction of an \<^verbatim>\<open>AlertResolveRequest\<close>: the field constraint \<^verbatim>\<open>min_length=10\<close> on
  \<^verbatim>\<open>resolution_notes\<close> rejects shorter notes before any service code runs.
\<close>

definition mk_AlertResolveRequest ::
  "string \<Rightarrow> string \<Rightarrow> string \<Rightarrow> bool \<Rightarrow> alert_error + AlertResolveRequest" where
  "mk_AlertResolveRequest aid by_whom notes flag =
     (if length notes < 10 then Inl ValidationError
      else Inr \<lparr> req_alert_id = aid, resolved_by = by_whom, req_resolution_notes = notes,
                 was_actual_tampering = flag \<rparr>)"

subsection \<open>The classification call with its model validation (services/intent\_service.py)\<close>

text \<open>
  A pydantic constructor raises \<^verbatim>\<open>ValidationError\<close> when a field breaks its \<^verbatim>\<open>ge\<close>/\<^verbatim>\<open>le\<close>
  constraint. \<^verbatim>\<open>TemporalContext\<close>: \<^verbatim>\<open>hour_of_day\<close> in \<open>[0, 23]\<close>, \<^verbatim>\<open>time_risk_modifier\<close> in
  \<open>[0.5, 2.0]\<close>.
\<close>

definition mk_TemporalContext :: "TemporalContext \<Rightarrow> alert_error + TemporalContext" where
  "mk_TemporalContext tc =
     (if hour_of_day tc \<le> 23 \<and> 1 / 2 \<le> time_risk_modifier tc \<and> time_risk_modifier tc \<le> 2
      then Inr tc else Inl ValidationError)"

text \<open>
  \<^verbatim>\<open>RiskFactor\<close>, without its display name, description and evidence texts:
  \<^verbatim>\<open>raw_score\<close> and \<^verbatim>\<open>confidence\<close> in \<open>[0, 1]\<close>, \<^verbatim>\<open>weighted_contribution\<close> at least 0.
\<close>

record RiskFactor =
  factor_id :: string
  category :: string
  weight :: real
  raw_score :: real
  weighted_contribution :: real
  factor_confidence :: real

definition mk_RiskFactor ::
  "string \<Rightarrow> string \<Rightarrow> real \<Rightarrow> real \<Rightarrow> real \<Rightarrow> real \<Rightarrow> alert_error + RiskFactor" where
  "mk_RiskFactor fid cat w raw contribution conf =
     (if 0 \<le> raw \<and> raw \<le> 1 \<and> 0 \<le> contribution \<and> 0 \<le> conf \<and> conf \<le> 1
      then Inr \<lparr> factor_id = fid, category = cat, weight = w, raw_score = raw,
                 weighted_contribution = contribution, factor_confidence = conf \<rparr>
      else Inl ValidationError)"

text \<open>
  \<^verbatim>\<open>IntentClassifyResponse\<close>: \<^verbatim>\<open>risk_score\<close>, \<^verbatim>\<open>vision_risk_score\<close> and
  \<^verbatim>\<open>sensor_risk_score\<close> in \<open>[0, 100]\<close>, \<^verbatim>\<open>confidence\<close> in \<open>[0, 1]\<close>, \<^verbatim>\<open>temporal_modifier\<close> in
  \<open>[0.5, 2.0]\<close>.
\<close>

definition mk_IntentClassifyResponse ::
  "IntentClassifyResponse \<Rightarrow> alert_error + IntentClassifyResponse" where
  "mk_IntentClassifyResponse r =
     (if 0 \<le> resp_risk_score r \<and> resp_risk_score r \<le> 100
         \<and> 0 \<le> resp_confidence r \<and> resp_confidence r \<le> 1
         \<and> 0 \<le> resp_vision_risk_score r \<and> resp_vision_risk_score r \<le> 100
         \<and> 0 \<le> resp_sensor_risk_score r \<and> resp_sensor_risk_score r \<le> 100
         \<and> 1 / 2 \<le> resp_temporal_modifier r \<and> resp_temporal_modifier r \<le> 2
      then Inr r else Inl ValidationError)"

text \<open>Python's \<^verbatim>\<open>x or default\<close> on an optional float: \<^verbatim>\<open>None\<close> and \<open>0.0\<close> are both falsy.\<close>

definition or_default :: "real option \<Rightarrow> real \<Rightarrow> real" where
  "or_default x dflt = (case x of None \<Rightarrow> dflt | Some v \<Rightarrow> if v = 0 then dflt else v)"

definition vision_weight :: "Config \<Rightarrow> DetectionClass \<Rightarrow> real" where
  "vision_weight cfg c = (case VISION_WEIGHTS cfg c of Some w \<Rightarrow> w | None \<Rightarrow> 10)"

definition sensor_weight :: "Config \<Rightarrow> AnomalyType \<Rightarrow> real" where
  "sensor_weight cfg t = (case SENSOR_WEIGHTS cfg t of Some w \<Rightarrow> w | None \<Rightarrow> 10)"

definition severity_multiplier :: "AnomalySeverity \<Rightarrow> real" where
  "severity_multiplier sev =
     (case sev of MINOR \<Rightarrow> 1 / 2 | MODERATE \<Rightarrow> 1 | SEVERE \<Rightarrow> 3 / 2 | NO_SEVERITY \<Rightarrow> 1)"

text \<open>The four kinds of factor that \<^verbatim>\<open>_generate_risk_factors\<close> constructs.\<close>

definition vision_factor :: "Config \<Rightarrow> Detection \<Rightarrow> alert_error + RiskFactor" where
  "vision_factor cfg d =
     (let w = vision_weight cfg (class_label d);
          contribution = w * confidence d
      in mk_RiskFactor (''v_'' @ detection_id d) ''vision'' w (confidence d)
           (py_round contribution 2) (confidence d))"

definition sensor_factor :: "Config \<Rightarrow> SensorAnomaly \<Rightarrow> alert_error + RiskFactor" where
  "sensor_factor cfg a =
     (let w = sensor_weight cfg (anomaly_type a);
          sev_mult = severity_multiplier (anomaly_severity a);
          contribution = w * sev_mult
      in mk_RiskFactor (''s_'' @ anomaly_id a) ''sensor'' w (or_default (isolation_score a) (1 / 2))
           (py_round contribution 2) (or_default (isolation_score a) (1 / 2)))"

definition coordination_factor :: "SensorAnalysisResponse \<Rightarrow> alert_error + RiskFactor" where
  "coordination_factor sa =
     mk_RiskFactor ''s_coordination'' ''sensor'' 40
       (or_default (coordination_confidence sa) (7 / 10))
       (40 * or_default (coordination_confidence sa) (7 / 10))
       (or_default (coordination_confidence sa) (7 / 10))"

definition temporal_factor :: "TemporalContext \<Rightarrow> alert_error + RiskFactor" where
  "temporal_factor tc =
     mk_RiskFactor ''t_temporal'' ''temporal'' 10 (time_risk_modifier tc - 1)
       (10 * (time_risk_modifier tc - 1)) (9 / 10)"

text \<open>Constructions in program order; the first exception ends the call.\<close>

fun in_order :: "(alert_error + 'a) list \<Rightarrow> alert_error + 'a list" where
  "in_order [] = Inr []"
| "in_order (x # xs) =
     (case x of
        Inl e \<Rightarrow> Inl e
      | Inr v \<Rightarrow> (case in_order xs of Inl e \<Rightarrow> Inl e | Inr vs \<Rightarrow> Inr (v # vs)))"

definition generate_risk_factors ::
  "Config \<Rightarrow> VisionAnalysisResponse option \<Rightarrow> SensorAnalysisResponse option \<Rightarrow> TemporalContext
     \<Rightarrow> alert_error + RiskFactor list" where
  "generate_risk_factors cfg vision_analysis sensor_analysis temporal_context =
     in_order
       ((case vision_analysis of None \<Rightarrow> [] | Some va \<Rightarrow> map (vision_factor cfg) (detections va))
        @ (case sensor_analysis of
             None \<Rightarrow> []
           | Some sa \<Rightarrow> map (sensor_factor cfg) (anomalies sa)
                        @ (if is_coordinated sa then [coordination_factor sa] else []))
        @ (if time_risk_modifier temporal_context > 1 then [temporal_factor temporal_context]
           else []))"

text \<open>
  \<^verbatim>\<open>IntentService.classify\<close> for a request that carries the two analyses (either may be
  absent) and whose timestamp has the hour \<open>hour\<close>: step 3 constructs the temporal context,
  step 5 the risk factors, and the end of the call the response from the values of
  \<open>classify\<close>; each constructor may raise. The result is the response with its risk
  factors. The counter of classifications and the broadcast, which follow the construction of
  the response, are left out.
\<close>

definition IntentService_classify ::
  "Config \<Rightarrow> string \<Rightarrow> string \<Rightarrow> nat \<Rightarrow> VisionAnalysisResponse option
     \<Rightarrow> SensorAnalysisResponse option \<Rightarrow> alert_error + IntentClassifyResponse \<times> RiskFactor list" where
  "IntentService_classify cfg uuid_hex zone hour vision_analysis sensor_analysis =
     (case mk_TemporalContext (calculate_temporal_context cfg hour) of
        Inl e \<Rightarrow> Inl e
      | Inr temporal_context \<Rightarrow>
          (case generate_risk_factors cfg vision_analysis sensor_analysis temporal_context of
             Inl e \<Rightarrow> Inl e
           | Inr risk_factors \<Rightarrow>
               (case mk_IntentClassifyResponse
                       (classify cfg uuid_hex zone vision_analysis sensor_analysis temporal_context) of
                  Inl e \<Rightarrow> Inl e
                | Inr response \<Rightarrow> Inr (response, risk_factors))))"

text \<open>
  What a call needs besides the provider contract in order to return: a timestamp hour, a
  configured time weight within the range of the temporal context, configured weights that
  are not negative, and isolation scores and a coordination confidence within \<open>[0, 1]\<close>,
  as the models of the sensor evidence require.
\<close>

definition unit_interval_or_none :: "real option \<Rightarrow> bool" where
  "unit_interval_or_none x = (case x of None \<Rightarrow> True | Some v \<Rightarrow> 0 \<le> v \<and> v \<le> 1)"

definition admissible_call ::
  "Config \<Rightarrow> nat \<Rightarrow> VisionAnalysisResponse option \<Rightarrow> SensorAnalysisResponse option \<Rightarrow> bool" where
  "admissible_call cfg hour vision_analysis sensor_analysis =
     (hour \<le> 23
      \<and> 1 / 2 \<le> time_risk_modifier (calculate_temporal_context cfg hour)
      \<and> time_risk_modifier (calculate_temporal_context cfg hour) \<le> 2
      \<and> (case vision_analysis of
            None \<Rightarrow> True
          | Some va \<Rightarrow> list_all (\<lambda>d. 0 \<le> vision_weight cfg (class_label d)) (detections va))
      \<and> (case sensor_analysis of
            None \<Rightarrow> True
          | Some sa \<Rightarrow>
              list_all (\<lambda>a. 0 \<le> sensor_weight cfg (anomaly_type a)
                            \<and> unit_interval_or_none (isolation_score a)) (anomalies sa)
              \<and> unit_interval_or_none (coordination_confidence sa)))"

subsection \<open>Alert management service (services/alert\_service.py)\<close>

text \<open>
  The three attributes of \<^verbatim>\<open>AlertService\<close>. \<open>alerts\<close> is the dictionary \<^verbatim>\<open>_alerts\<close> in
  insertion order (the order in which \<^verbatim>\<open>.values()\<close> is iterated); the two per-zone
  dictionaries are maps, a missing key of the \<^verbatim>\<open>defaultdict\<close> reading as the empty list.
\<close>

record AlertService =
  alerts :: "(string \<times> Alert) list"
  zone_last_alert :: "string \<rightharpoonup> real"
  zone_alert_counts :: "string \<rightharpoonup> real list"

definition AlertService_init :: AlertService where
  "AlertService_init = \<lparr> alerts = [], zone_last_alert = Map.empty, zone_alert_counts = Map.empty \<rparr>"

text \<open>
  The readings of \<^verbatim>\<open>datetime.utcnow()\<close> made by one call of
  \<^verbatim>\<open>create_alert_from_classification\<close>, in program order: in \<^verbatim>\<open>_check_cooldown\<close>, in
  \<^verbatim>\<open>_check_flooding\<close>, the two default factories of \<^verbatim>\<open>Alert\<close>, and the two stores after
  the alert is registered.
\<close>

record create_clock =
  now_cooldown :: real
  now_flooding :: real
  now_created_at :: real
  now_updated_at :: real
  now_last_alert :: real
  now_alert_count :: real

definition check_cooldown :: "Config \<Rightarrow> AlertService \<Rightarrow> string \<Rightarrow> real \<Rightarrow> bool" where
  "check_cooldown cfg st zone now =
     (case zone_last_alert st zone of
        None \<Rightarrow> True
      | Some last_alert \<Rightarrow> now - last_alert \<ge> ALERT_COOLDOWN_SECONDS cfg)"

definition check_flooding ::
  "Config \<Rightarrow> AlertService \<Rightarrow> string \<Rightarrow> real \<Rightarrow> bool \<times> AlertService" where
  "check_flooding cfg st zone now =
     (let hour_ago = now - 3600;
          kept = filter (\<lambda>t. t > hour_ago)
                   (case zone_alert_counts st zone of None \<Rightarrow> [] | Some ts \<Rightarrow> ts)
      in (length kept < MAX_ALERTS_PER_HOUR cfg,
          st\<lparr>zone_alert_counts := (zone_alert_counts st)(zone \<mapsto> kept)\<rparr>))"

text \<open>The loop of \<^verbatim>\<open>_determine_severity\<close> over \<^verbatim>\<open>SEVERITY_THRESHOLDS.items()\<close>.\<close>

fun severity_scan :: "(SeverityLevel \<times> real \<times> real) list \<Rightarrow> real \<Rightarrow> SeverityLevel option" where
  "severity_scan [] risk = None"
| "severity_scan ((sev, min_score, max_score) # rest) risk =
     (if min_score \<le> risk \<and> risk \<le> max_score then Some sev else severity_scan rest risk)"

definition determine_severity :: "Config \<Rightarrow> real \<Rightarrow> SeverityLevel" where
  "determine_severity cfg risk =
     (case severity_scan (SEVERITY_THRESHOLDS cfg) risk of
        Some sev \<Rightarrow> sev
      | None \<Rightarrow> if risk < 25 then LOW else CRITICAL)"

definition generate_title ::
  "string \<Rightarrow> TamperingClassification \<Rightarrow> SeverityLevel \<Rightarrow> AlertTitle" where
  "generate_title zone cls sev =
     (if cls = CONFIRMED_TAMPERING then TamperingDetected zone else SuspiciousActivity zone)"

definition generate_description :: "TamperingClassification \<Rightarrow> real \<Rightarrow> AlertDescription" where
  "generate_description cls risk =
     (if cls = CONFIRMED_TAMPERING then HighConfidenceEvidence risk else SuspiciousAnomalies risk)"

text \<open>
  \<^verbatim>\<open>create_alert_from_classification\<close>. The result is the returned value (\<open>Inr None\<close> for
  \<^verbatim>\<open>None\<close>, \<open>Inl\<close> when the constructor of \<^verbatim>\<open>Alert\<close> rejects a risk score outside
  \<open>[0, 100]\<close>) together with the service state after the call.
\<close>

definition create_alert_from_classification ::
  "Config \<Rightarrow> AlertService \<Rightarrow> string \<Rightarrow> string \<Rightarrow> TamperingClassification \<Rightarrow> real
     \<Rightarrow> string list \<Rightarrow> string \<Rightarrow> create_clock
     \<Rightarrow> (alert_error + Alert option) \<times> AlertService" where
  "create_alert_from_classification cfg st zone cid cls risk rsns uuid_hex clk =
     (if cls = SAFE then (Inr None, st)
      else if \<not> check_cooldown cfg st zone (now_cooldown clk) then (Inr None, st)
      else
        (let (under_limit, st1) = check_flooding cfg st zone (now_flooding clk)
         in if \<not> under_limit then (Inr None, st1)
            else
              (let sev = determine_severity cfg risk
               in if \<not> (0 \<le> risk \<and> risk \<le> 100) then (Inl ValidationError, st1)
                  else
                    (let alert = \<lparr>
                           alert_id = ''alert_'' @ take 12 uuid_hex,
                           zone_id = zone,
                           classification_id = cid,
                           severity = sev,
                           status = ACTIVE,
                           risk_score = risk,
                           classification = cls,
                           title = generate_title zone cls sev,
                           description = generate_description cls risk,
                           reasons = take 5 rsns,
                           created_at = now_created_at clk,
                           updated_at = now_updated_at clk,
                           expires_at = None,
                           acknowledged = False,
                           acknowledged_by = None,
                           acknowledged_at = None,
                           acknowledgement_notes = None,
                           escalation_level = INITIAL,
                           escalated_at = None,
                           resolved_at = None,
                           resolution_notes = None,
                           evidence_urls = [],
                           is_simulated = True \<rparr>;
                         counts = (case zone_alert_counts st1 zone of None \<Rightarrow> [] | Some ts \<Rightarrow> ts)
                     in (Inr (Some alert),
                         st1\<lparr> alerts := AList.update (alert_id alert) alert (alerts st1),
                              zone_last_alert := (zone_last_alert st1)(zone \<mapsto> now_last_alert clk),
                              zone_alert_counts :=
                                (zone_alert_counts st1)(zone \<mapsto> counts @ [now_alert_count clk]) \<rparr>)))))"

text \<open>
  \<^verbatim>\<open>acknowledge_alert\<close> and \<^verbatim>\<open>resolve_alert\<close> mutate the alert object stored in the
  dictionary and return it; \<open>None\<close> is the miss for an unknown id.
\<close>

definition acknowledge_alert ::
  "AlertService \<Rightarrow> AlertAcknowledgeRequest \<Rightarrow> real \<Rightarrow> real \<Rightarrow> Alert option \<times> AlertService" where
  "acknowledge_alert st request now_ack now_upd =
     (case map_of (alerts st) (ack_alert_id request) of
        None \<Rightarrow> (None, st)
      | Some alert \<Rightarrow>
          (let alert' = alert\<lparr> acknowledged := True,
                              acknowledged_by := Some (ack_acknowledged_by request),
                              acknowledged_at := Some now_ack,
                              acknowledgement_notes := ack_notes request,
                              updated_at := now_upd,
                              status := (if mark_as_false_positive request then FALSE_POSITIVE
                                         else ACKNOWLEDGED) \<rparr>
           in (Some alert',
               st\<lparr>alerts := AList.update (ack_alert_id request) alert' (alerts st)\<rparr>)))"

definition resolve_alert ::
  "AlertService \<Rightarrow> AlertResolveRequest \<Rightarrow> real \<Rightarrow> real \<Rightarrow> Alert option \<times> AlertService" where
  "resolve_alert st request now_res now_upd =
     (case map_of (alerts st) (req_alert_id request) of
        None \<Rightarrow> (None, st)
      | Some alert \<Rightarrow>
          (let alert' = alert\<lparr> status := RESOLVED,
                              resolved_at := Some now_res,
                              resolution_notes := Some (req_resolution_notes request),
                              updated_at := now_upd \<rparr>
           in (Some alert',
               st\<lparr>alerts := AList.update (req_alert_id request) alert' (alerts st)\<rparr>)))"

text \<open>
  The body of the loop of \<^verbatim>\<open>check_escalations\<close> for one alert; \<open>Inl\<close> is the exception
  of \<^verbatim>\<open>EscalationLevel(value + 1)\<close>, raised before any field of the alert is assigned.
\<close>

definition escalate_alert :: "Config \<Rightarrow> real \<Rightarrow> Alert \<Rightarrow> alert_error + Alert" where
  "escalate_alert cfg now alert =
     (if status alert \<noteq> ACTIVE then Inr alert
      else if acknowledged alert then Inr alert
      else
        (let timeout = ESCALATION_TIMEOUT cfg (severity alert);
             elapsed = now - created_at alert
         in if elapsed > timeout
               \<and> escalation_value (escalation_level alert) < escalation_value EMERGENCY
            then (case EscalationLevel_of (escalation_value (escalation_level alert) + 1) of
                    Inl e \<Rightarrow> Inl e
                  | Inr lvl \<Rightarrow> Inr (alert\<lparr> escalation_level := lvl,
                                          escalated_at := Some now,
                                          status := ESCALATED \<rparr>))
            else Inr alert))"

text \<open>
  The loop over \<^verbatim>\<open>self._alerts.values()\<close>: an exception leaves the alerts already visited
  updated and the others untouched.
\<close>

fun escalation_loop ::
  "Config \<Rightarrow> real \<Rightarrow> (string \<times> Alert) list \<Rightarrow> alert_error option \<times> (string \<times> Alert) list" where
  "escalation_loop cfg now [] = (None, [])"
| "escalation_loop cfg now ((k, alert) # rest) =
     (case escalate_alert cfg now alert of
        Inl e \<Rightarrow> (Some e, (k, alert) # rest)
      | Inr alert' \<Rightarrow>
          (let (r, rest') = escalation_loop cfg now rest in (r, (k, alert') # rest')))"

definition check_escalations ::
  "Config \<Rightarrow> AlertService \<Rightarrow> real \<Rightarrow> alert_error option \<times> AlertService" where
  "check_escalations cfg st now =
     (let (r, al) = escalation_loop cfg now (alerts st) in (r, st\<lparr>alerts := al\<rparr>))"

text \<open>
  Successive passes of the periodic scheduler, one per reading of the clock; each pass
  starts from the state that the previous one left.
\<close>

fun escalation_passes :: "Config \<Rightarrow> AlertService \<Rightarrow> real list \<Rightarrow> AlertService" where
  "escalation_passes cfg st [] = st"
| "escalation_passes cfg st (now # nows) =
     escalation_passes cfg (snd (check_escalations cfg st now)) nows"

text \<open>
  The alert step of the route \<^verbatim>\<open>POST /intent/classify\<close> (routers/intent.py): after
  \<^verbatim>\<open>classify\<close> returns, an alert is requested unless the classification is SAFE. The
  argument \<open>primary_reasons\<close> is \<^verbatim>\<open>response.primary_reasons\<close>.
\<close>

definition classify_intent_alert ::
  "Config \<Rightarrow> AlertService \<Rightarrow> IntentClassifyResponse \<Rightarrow> string list \<Rightarrow> string \<Rightarrow> create_clock
     \<Rightarrow> (alert_error + Alert option) \<times> AlertService" where
  "classify_intent_alert cfg st response primary_reasons uuid_hex clk =
     (if resp_classification response \<noteq> SAFE
      then create_alert_from_classification cfg st (resp_zone_id response)
             (resp_classification_id response) (resp_classification response)
             (resp_risk_score response) primary_reasons uuid_hex clk
      else (Inr None, st))"

subsection \<open>Audit trail and the resolve route (services/audit\_service.py, routers/alert.py)\<close>

datatype AuditEventType =
    VISION_ANALYSIS | SENSOR_ANALYSIS | INTENT_CLASSIFICATION | ALERT_CREATED
  | ALERT_ACKNOWLEDGED | ALERT_RESOLVED | ALERT_ESCALATED | SYSTEM_EVENT | API_REQUEST
  | AUDIT_ERROR

fun AuditEventType_value :: "AuditEventType \<Rightarrow> string" where
  "AuditEventType_value VISION_ANALYSIS = ''vision_analysis''"
| "AuditEventType_value SENSOR_ANALYSIS = ''sensor_analysis''"
| "AuditEventType_value INTENT_CLASSIFICATION = ''intent_classification''"
| "AuditEventType_value ALERT_CREATED = ''alert_created''"
| "AuditEventType_value ALERT_ACKNOWLEDGED = ''alert_acknowledged''"
| "AuditEventType_value ALERT_RESOLVED = ''alert_resolved''"
| "AuditEventType_value ALERT_ESCALATED = ''alert_escalated''"
| "AuditEventType_value SYSTEM_EVENT = ''system_event''"
| "AuditEventType_value API_REQUEST = ''api_request''"
| "AuditEventType_value AUDIT_ERROR = ''error''"

text \<open>A value of the \<^verbatim>\<open>details\<close> dictionary of an audit entry.\<close>

datatype DetailValue = StrValue string | BoolValue bool

record AuditEntry =
  entry_id :: string
  entry_timestamp :: real
  event_type :: AuditEventType
  entry_zone_id :: "string option"
  summary :: string
  details :: "(string \<times> DetailValue) list"
  user_id :: "string option"
  session_id :: "string option"

record AuditService =
  entries :: "AuditEntry list"
  service_session_id :: string

text \<open>
  \<^verbatim>\<open>_add_entry\<close>: append, then keep the last \<^verbatim>\<open>MAX_AUDIT_LOG_ENTRIES\<close> entries; the slice
  \<^verbatim>\<open>entries[-n:]\<close> is the whole list when \<open>n = 0\<close>.
\<close>

definition add_entry :: "Config \<Rightarrow> AuditService \<Rightarrow> AuditEntry \<Rightarrow> AuditService" where
  "add_entry cfg au entry =
     (let es = entries au @ [entry]; n = MAX_AUDIT_LOG_ENTRIES cfg
      in if length es > n
         then au\<lparr>entries := (if n = 0 then es else drop (length es - n) es)\<rparr>
         else au\<lparr>entries := es\<rparr>)"

definition log_alert_event ::
  "Config \<Rightarrow> AuditService \<Rightarrow> AuditEventType \<Rightarrow> string \<Rightarrow> string \<Rightarrow> (string \<times> DetailValue) list
     \<Rightarrow> string option \<Rightarrow> string \<Rightarrow> real \<Rightarrow> string \<times> AuditService" where
  "log_alert_event cfg au ev zone aid dets user uuid_hex now =
     (let entry = \<lparr> entry_id = ''audit_'' @ take 12 uuid_hex,
                     entry_timestamp = now,
                     event_type = ev,
                     entry_zone_id = Some zone,
                     summary = ''Alert '' @ aid @ '': '' @ AuditEventType_value ev,
                     details = dets,
                     user_id = user,
                     session_id = Some (service_session_id au) \<rparr>
      in (entry_id entry, add_entry cfg au entry))"

datatype http_error = HTTPException nat string

text \<open>
  The route \<^verbatim>\<open>POST /alert/resolve\<close>: status 404 for an unknown alert id; otherwise the
  resolved alert, and one audit entry whose details hold who resolved the alert, the notes
  and the ground-truth flag.
\<close>

definition resolve_alert_route ::
  "Config \<Rightarrow> AlertService \<Rightarrow> AuditService \<Rightarrow> AlertResolveRequest \<Rightarrow> real \<Rightarrow> real \<Rightarrow> string
     \<Rightarrow> real \<Rightarrow> (http_error + Alert) \<times> AlertService \<times> AuditService" where
  "resolve_alert_route cfg st au request now_res now_upd uuid_hex now_audit =
     (case resolve_alert st request now_res now_upd of
        (None, st') \<Rightarrow>
          (Inl (HTTPException 404 (''Alert not found: '' @ req_alert_id request)), st', au)
      | (Some alert, st') \<Rightarrow>
          (Inr alert, st',
           snd (log_alert_event cfg au ALERT_RESOLVED (zone_id alert) (alert_id alert)
                  [(''resolved_by'', StrValue (resolved_by request)),
                   (''resolution_notes'', StrValue (req_resolution_notes request)),
                   (''was_actual_tampering'', BoolValue (was_actual_tampering request))]
                  (Some (resolved_by request)) uuid_hex now_audit)))"

subsection \<open>Run controller (simulation\_controller.py)\<close>

datatype SimulationState = STOPPED | RUNNING | ERROR

text \<open>
  An exception caught by \<^verbatim>\<open>except Exception as e\<close>: an instance of (a subclass of) Python's
  \<^verbatim>\<open>Exception\<close>, given by the name of its class and by the text of \<^verbatim>\<open>str(e)\<close>.
\<close>

datatype py_exception = PyException (exc_class: string) (exc_str: string)

text \<open>
  The attributes of \<^verbatim>\<open>SimulationController\<close>; \<open>lock_locked\<close> is the state of the
  \<^verbatim>\<open>asyncio.Lock\<close> held in \<^verbatim>\<open>_lock\<close>.
\<close>

record SimulationController =
  state :: SimulationState
  lock_locked :: bool
  started_at :: "real option"
  last_run_at :: "real option"
  run_count :: nat
  error_message :: "string option"

definition SimulationController_init :: SimulationController where
  "SimulationController_init =
     \<lparr> state = STOPPED, lock_locked = False, started_at = None, last_run_at = None,
       run_count = 0, error_message = None \<rparr>"

datatype StatusMessage = StoppedReady | RunningSince "real option" | InErrorState string

record SimulationStatus =
  status_state :: SimulationState
  status_message :: StatusMessage
  status_started_at :: "real option"
  status_last_run_at :: "real option"
  status_run_count :: nat
  status_error_message :: "string option"

text \<open>
  \<^verbatim>\<open>_get_status_message\<close>; \<^verbatim>\<open>self._error_message or 'Unknown error'\<close> replaces a missing
  and an empty message alike.
\<close>

definition get_status_message :: "SimulationController \<Rightarrow> StatusMessage" where
  "get_status_message c =
     (if state c = STOPPED then StoppedReady
      else if state c = RUNNING then RunningSince (started_at c)
      else InErrorState (case error_message c of
                           None \<Rightarrow> ''Unknown error''
                         | Some m \<Rightarrow> if m = [] then ''Unknown error'' else m))"

definition get_status :: "SimulationController \<Rightarrow> SimulationStatus" where
  "get_status c =
     \<lparr> status_state = state c, status_message = get_status_message c,
       status_started_at = started_at c, status_last_run_at = last_run_at c,
       status_run_count = run_count c, status_error_message = error_message c \<rparr>"

text \<open>
  \<^verbatim>\<open>async with self._lock:\<close> around a body that never awaits: the lock is taken when it is
  free, the body runs, the lock is released, all without yielding to the event loop. When
  the lock is held the caller waits, which is the result \<open>None\<close> (no step).
\<close>

definition with_lock ::
  "(SimulationController \<Rightarrow> SimulationController) \<Rightarrow> SimulationController
     \<Rightarrow> SimulationController option" where
  "with_lock body c =
     (if lock_locked c then None
      else Some ((body (c\<lparr>lock_locked := True\<rparr>))\<lparr>lock_locked := False\<rparr>))"

text \<open>The three locked blocks of \<^verbatim>\<open>run_single\<close>.\<close>

definition mark_running :: "real \<Rightarrow> SimulationController \<Rightarrow> SimulationController" where
  "mark_running now c = c\<lparr> state := RUNNING, started_at := Some now, error_message := None \<rparr>"

definition mark_success :: "real \<Rightarrow> SimulationController \<Rightarrow> SimulationController" where
  "mark_success now c = c\<lparr> state := STOPPED, last_run_at := Some now, run_count := run_count c + 1 \<rparr>"

definition mark_error :: "string \<Rightarrow> SimulationController \<Rightarrow> SimulationController" where
  "mark_error error_msg c = c\<lparr> state := ERROR, error_message := Some error_msg \<rparr>"

text \<open>The dictionary that \<^verbatim>\<open>run_single\<close> returns.\<close>

datatype RunPayload =
    SuccessPayload IntentClassifyResponse SimulationState
  | FailurePayload string SimulationState

text \<open>
  One call of \<^verbatim>\<open>run_single\<close> with no other task scheduled in between. \<open>outcome\<close> is what
  the body of the \<^verbatim>\<open>try\<close> block yields up to the return of \<^verbatim>\<open>intent_service.classify\<close>: the
  response, or the exception raised on the way. The result \<open>None\<close> stands for a caller that
  waits for the lock for ever.
\<close>

definition run_single ::
  "SimulationController \<Rightarrow> real \<Rightarrow> py_exception + IntentClassifyResponse \<Rightarrow> real
     \<Rightarrow> (RunPayload \<times> SimulationController) option" where
  "run_single c now_start outcome now_end =
     (case with_lock (mark_running now_start) c of
        None \<Rightarrow> None
      | Some c1 \<Rightarrow>
          (case outcome of
             Inr response \<Rightarrow>
               (case with_lock (mark_success now_end) c1 of
                  None \<Rightarrow> None
                | Some c2 \<Rightarrow> Some (SuccessPayload response STOPPED, c2))
           | Inl e \<Rightarrow>
               (let error_msg = exc_str e
                in case with_lock (mark_error error_msg) c1 of
                     None \<Rightarrow> None
                   | Some c2 \<Rightarrow> Some (FailurePayload error_msg ERROR, c2))))"

definition reset :: "SimulationController \<Rightarrow> (SimulationStatus \<times> SimulationController) option" where
  "reset c =
     (case with_lock (\<lambda>c. if state c = ERROR then c\<lparr> state := STOPPED, error_message := None \<rparr>
                            else c) c of
        None \<Rightarrow> None
      | Some c' \<Rightarrow> Some (get_status c', c'))"

text \<open>
  Several calls of \<^verbatim>\<open>run_single\<close> in one event loop. A task is suspended only at an
  \<^verbatim>\<open>await\<close> that yields; inside \<^verbatim>\<open>run_single\<close> that is \<^verbatim>\<open>await intent_service.classify(request)\<close>,
  whose broadcast awaits \<^verbatim>\<open>connection.send_json(message)\<close> for every connected web-socket
  client. It lies between the first locked block and the second, so a task is at one of
  three places, and the event loop runs one segment of one task at a time.
\<close>

datatype TaskPlace = Called | InCycle | Returned

record EventLoop =
  controller :: SimulationController
  place :: "nat \<Rightarrow> TaskPlace"

datatype Segment =
    Enter nat real
  | Leave nat "py_exception + IntentClassifyResponse" real

definition run_segment :: "Segment \<Rightarrow> EventLoop \<Rightarrow> EventLoop option" where
  "run_segment seg s =
     (case seg of
        Enter task now \<Rightarrow>
          if place s task \<noteq> Called then None
          else (case with_lock (mark_running now) (controller s) of
                  None \<Rightarrow> None
                | Some c \<Rightarrow> Some (s\<lparr> controller := c, place := (place s)(task := InCycle) \<rparr>))
      | Leave task outcome now \<Rightarrow>
          if place s task \<noteq> InCycle then None
          else (case with_lock (case outcome of Inr response \<Rightarrow> mark_success now
                                | Inl e \<Rightarrow> mark_error (exc_str e)) (controller s) of
                  None \<Rightarrow> None
                | Some c \<Rightarrow> Some (s\<lparr> controller := c, place := (place s)(task := Returned) \<rparr>)))"

fun run_segments :: "Segment list \<Rightarrow> EventLoop \<Rightarrow> EventLoop option" where
  "run_segments [] s = Some s"
| "run_segments (seg # segs) s =
     (case run_segment seg s of None \<Rightarrow> None | Some s' \<Rightarrow> run_segments segs s')"

definition EventLoop_init :: EventLoop where
  "EventLoop_init = \<lparr> controller = SimulationController_init, place = (\<lambda>task. Called) \<rparr>"

subsection \<open>Sample inputs\<close>

text \<open>Evidence, clocks and states used to evaluate the functions at concrete inputs.\<close>

definition clock_at :: "real \<Rightarrow> create_clock" where
  "clock_at t = \<lparr> now_cooldown = t, now_flooding = t, now_created_at = t, now_updated_at = t,
                  now_last_alert = t, now_alert_count = t \<rparr>"

definition evidence_vision :: "real \<Rightarrow> Detection list \<Rightarrow> VisionAnalysisResponse" where
  "evidence_vision score dets =
     \<lparr> vision_analysis_id = ''vis_1'', detections = dets, vision_risk_score = score \<rparr>"

definition evidence_sensor :: "real \<Rightarrow> SensorAnalysisResponse" where
  "evidence_sensor score =
     \<lparr> sensor_analysis_id = ''sen_1'', anomalies = [], is_coordinated = False,
       coordination_confidence = None, sensor_risk_score = score, sabotage_likelihood = 0 \<rparr>"

definition context_with_modifier :: "real \<Rightarrow> TemporalContext" where
  "context_with_modifier m =
     \<lparr> hour_of_day = 12, is_night_hours = False, is_peak_hours = False,
       is_maintenance_window = False, time_risk_modifier = m, temporal_notes = [] \<rparr>"

definition state_with_alert :: "TamperingClassification \<Rightarrow> real \<Rightarrow> AlertService" where
  "state_with_alert cls risk =
     snd (create_alert_from_classification config AlertService_init ''Z1'' ''cls_0123456789ab'' cls
            risk [] ''0123456789abcdef'' (clock_at 1000))"

definition AuditService_sample :: AuditService where
  "AuditService_sample = \<lparr> entries = [], service_session_id = ''session_01234567'' \<rparr>"

subsection \<open>Invariant of the escalation loop\<close>

text \<open>
  An alert is at its first level, or it is at the second and its status is ESCALATED.
\<close>

definition one_step_invariant :: "Alert \<Rightarrow> bool" where
  "one_step_invariant a =
     (escalation_level a = INITIAL \<or> (escalation_level a = SUPERVISOR \<and> status a = ESCALATED))"

section \<open>Properties\<close>

subsection \<open>Rounding and the threshold classification\<close>


lemma py_round_lower:
  assumes "of_int k \<le> x * 10 ^ n"
  shows "of_int k / 10 ^ n \<le> py_round x n"
proof -
  have "k \<le> \<lfloor>x * 10 ^ n\<rfloor>" using assms by (simp add: le_floor_iff)
  then have "(of_int k :: real) \<le> of_int (if x * 10 ^ n - of_int \<lfloor>x * 10 ^ n\<rfloor> < 1 / 2 then \<lfloor>x * 10 ^ n\<rfloor>
       else if 1 / 2 < x * 10 ^ n - of_int \<lfloor>x * 10 ^ n\<rfloor> then \<lfloor>x * 10 ^ n\<rfloor> + 1
       else if even \<lfloor>x * 10 ^ n\<rfloor> then \<lfloor>x * 10 ^ n\<rfloor> else \<lfloor>x * 10 ^ n\<rfloor> + 1)"
    by simp
  then show ?thesis
    by (simp add: py_round_def Let_def divide_right_mono del: of_int_add)
qed

lemma py_round_upper:
  assumes "x * 10 ^ n \<le> of_int k"
  shows "py_round x n \<le> of_int k / 10 ^ n"
proof -
  let ?y = "x * 10 ^ n"
  let ?f = "\<lfloor>?y\<rfloor>"
  have fk: "?f \<le> k" using assms by (simp add: floor_le_iff)
  have "(if ?y - of_int ?f < 1 / 2 then ?f
       else if 1 / 2 < ?y - of_int ?f then ?f + 1
       else if even ?f then ?f else ?f + 1) \<le> k"
  proof (cases "?f = k")
    case True
    then have "?y - of_int ?f \<le> 0" using assms by simp
    then show ?thesis using True by simp
  next
    case False
    then show ?thesis using fk by simp
  qed
  then have "(of_int (if ?y - of_int ?f < 1 / 2 then ?f
       else if 1 / 2 < ?y - of_int ?f then ?f + 1
       else if even ?f then ?f else ?f + 1) :: real) \<le> of_int k"
    by (simp only: of_int_le_iff)
  then show ?thesis
    by (simp add: py_round_def Let_def divide_right_mono del: of_int_add)
qed

lemma py_round2_bounds:
  "0 \<le> x \<Longrightarrow> 0 \<le> py_round x 2"
  "x \<le> 1 \<Longrightarrow> py_round x 2 \<le> 1"
  "x \<le> 100 \<Longrightarrow> py_round x 2 \<le> 100"
  using py_round_lower[of 0 x 2] py_round_upper[of x 2 100] py_round_upper[of x 2 10000]
  by simp_all




lemma frac_step:
  fixes q :: real
  assumes "0 \<le> q" "q \<le> 1" "0 \<le> c" "c + 3 / 10 \<le> 1"
  shows "0 \<le> c + q * (3 / 10)" "c + q * (3 / 10) \<le> 1"
  using assms by linarith+

lemma nonneg_step:
  fixes q :: real
  assumes "0 \<le> q"
  shows "0 \<le> 7 / 10 + q * (3 / 10)"
  using assms by linarith

lemma threshold_classification_confidence:
  assumes "0 \<le> rs" "rs \<le> 100"
  shows "0 \<le> snd (threshold_classification cfg rs) \<and> snd (threshold_classification cfg rs) \<le> 1"
proof -
  define ts where "ts = max (RISK_THRESHOLD_SAFE cfg) (1 / 100)"
  define tu where "tu = max (RISK_THRESHOLD_SUSPICIOUS cfg) (ts + 1 / 100)"
  have ts_pos: "0 < ts" by (simp add: ts_def max_def)
  have tu_gt: "ts < tu" by (simp add: tu_def max_def)
  consider (safe) "rs < ts" | (susp) "ts \<le> rs" "rs < tu" | (tamp) "tu \<le> rs"
    using tu_gt by linarith
  then show ?thesis
  proof cases
    case safe
    have "rs / ts \<le> 1" using safe ts_pos by simp
    moreover have "0 \<le> rs / ts" using assms ts_pos by simp
    ultimately have "0 \<le> max (1 - rs / ts) 0" "max (1 - rs / ts) 0 \<le> 1" by simp_all
    then have "0 \<le> py_round (max (1 - rs / ts) 0) 2 \<and> py_round (max (1 - rs / ts) 0) 2 \<le> 1"
      by (simp add: py_round2_bounds)
    then show ?thesis
      unfolding threshold_classification_def Let_def ts_def[symmetric] tu_def[symmetric]
      using safe ts_pos by (simp only: if_True snd_conv)
  next
    case susp
    let ?c = "5 / 10 + (rs - ts) / (tu - ts) * (3 / 10)"
    have r: "0 < tu - ts" using tu_gt by simp
    have "0 \<le> (rs - ts) / (tu - ts)" using susp r by simp
    moreover have "(rs - ts) / (tu - ts) \<le> 1" using susp r by simp
    ultimately have "0 \<le> ?c" "?c \<le> 1" by (rule frac_step; simp)+
    then have "0 \<le> py_round ?c 2 \<and> py_round ?c 2 \<le> 1"
      by (simp add: py_round2_bounds)
    moreover have "\<not> rs < ts" using susp by simp
    ultimately show ?thesis
      unfolding threshold_classification_def Let_def ts_def[symmetric] tu_def[symmetric]
      using susp(2) r by (simp only: if_True if_False snd_conv)
  next
    case tamp
    let ?c = "if 100 - tu > 0 then 7 / 10 + (rs - tu) / (100 - tu) * (3 / 10) else 85 / 100"
    have "0 \<le> ?c"
    proof (cases "100 - tu > 0")
      case True
      then have "0 \<le> (rs - tu) / (100 - tu)" using tamp by simp
      then have "0 \<le> 7 / 10 + (rs - tu) / (100 - tu) * (3 / 10)" by (rule nonneg_step)
      then show ?thesis using True by (simp only: if_True)
    next
      case False
      then show ?thesis by simp
    qed
    then have "0 \<le> min ?c 1" "min ?c 1 \<le> 1" by simp_all
    then have "0 \<le> py_round (min ?c 1) 2 \<and> py_round (min ?c 1) 2 \<le> 1"
      by (simp only: py_round2_bounds)
    moreover have "\<not> rs < ts" "\<not> rs < tu" using tamp tu_gt by simp_all
    ultimately show ?thesis
      unfolding threshold_classification_def Let_def ts_def[symmetric] tu_def[symmetric]
      by (simp only: if_False snd_conv)
  qed
qed

lemma override_scan_Some:
  "override_scan ds = Some res \<Longrightarrow>
     \<exists>d \<in> set ds. (class_label d = MISSING_FISH_PLATE \<or> class_label d = TRACK_DISPLACEMENT)
        \<and> confidence d \<ge> 85 / 100 \<and> res = (CONFIRMED_TAMPERING, confidence d)"
  by (induction ds) (auto split: if_splits)

lemma override_scan_fires:
  "d \<in> set ds \<Longrightarrow> class_label d = MISSING_FISH_PLATE \<or> class_label d = TRACK_DISPLACEMENT \<Longrightarrow>
   confidence d \<ge> 85 / 100 \<Longrightarrow> override_scan ds \<noteq> None"
  by (induction ds) auto

lemma final_score_bounds:
  "0 \<le> fst (safe_risk_score x 0 100) \<and> fst (safe_risk_score x 0 100) \<le> 100"
  by (simp add: safe_risk_score_def)

lemma determine_classification_confidence:
  assumes "0 \<le> rs" "rs \<le> 100"
    and "\<And>va d. vision = Some va \<Longrightarrow> d \<in> set (detections va) \<Longrightarrow> 0 \<le> confidence d \<and> confidence d \<le> 1"
    and "\<And>sa. sensor = Some sa \<Longrightarrow> 0 \<le> sabotage_likelihood sa \<and> sabotage_likelihood sa \<le> 1"
  shows "0 \<le> snd (determine_classification cfg rs vision sensor)
       \<and> snd (determine_classification cfg rs vision sensor) \<le> 1"
proof (cases "case vision of None \<Rightarrow> None | Some va \<Rightarrow> override_scan (detections va)")
  case (Some res)
  then obtain va where va: "vision = Some va" "override_scan (detections va) = Some res"
    by (auto split: option.splits)
  from override_scan_Some[OF va(2)] obtain d where "d \<in> set (detections va)" "res = (CONFIRMED_TAMPERING, confidence d)"
    by blast
  then show ?thesis using assms(3)[OF va(1)] Some by (simp add: determine_classification_def)
next
  case None
  show ?thesis
  proof (cases sensor)
    case N: None
    then show ?thesis using None threshold_classification_confidence[OF assms(1,2)]
      by (simp add: determine_classification_def)
  next
    case (Some sa)
    then show ?thesis using None threshold_classification_confidence[OF assms(1,2)] assms(4)[OF Some]
      by (simp add: determine_classification_def)
  qed
qed

lemma classify_bounds_aux:
  assumes "\<And>va d. vision = Some va \<Longrightarrow> d \<in> set (detections va) \<Longrightarrow> 0 \<le> confidence d \<and> confidence d \<le> 1"
    and "\<And>sa. sensor = Some sa \<Longrightarrow> 0 \<le> sabotage_likelihood sa \<and> sabotage_likelihood sa \<le> 1"
  shows "0 \<le> resp_risk_score (classify cfg u z vision sensor tc)
       \<and> resp_risk_score (classify cfg u z vision sensor tc) \<le> 100
       \<and> 0 \<le> resp_confidence (classify cfg u z vision sensor tc)
       \<and> resp_confidence (classify cfg u z vision sensor tc) \<le> 1"
proof -
  define raw where "raw = base_score (safe_clamp (case vision of Some va \<Rightarrow> vision_risk_score va | None \<Rightarrow> 0) 0 100)
       (safe_clamp (case sensor of Some sa \<Rightarrow> sensor_risk_score sa | None \<Rightarrow> 0) 0 100) * max (time_risk_modifier tc) 0"
  define fs where "fs = fst (safe_risk_score raw 0 100)"
  have fs: "0 \<le> fs" "fs \<le> 100" using final_score_bounds[of raw] by (simp_all add: fs_def)
  have rs: "resp_risk_score (classify cfg u z vision sensor tc) = py_round fs 2"
    by (simp add: classify_def Let_def raw_def fs_def split: prod.splits)
  have cf: "resp_confidence (classify cfg u z vision sensor tc) = snd (determine_classification cfg fs vision sensor)"
    by (simp add: classify_def Let_def raw_def fs_def split: prod.splits)
  show ?thesis
    unfolding rs cf
    using py_round2_bounds(1,3)[of fs] fs determine_classification_confidence[OF fs assms]
    by simp
qed

text \<open>
  The computed risk score and confidence are within their ranges for every configuration,
  every score and every temporal context.
\<close>

lemma classify_fields_bounded:
  assumes "provider_contract vision sensor"
  shows "0 \<le> resp_risk_score (classify cfg u z vision sensor tc)
       \<and> resp_risk_score (classify cfg u z vision sensor tc) \<le> 100
       \<and> 0 \<le> resp_confidence (classify cfg u z vision sensor tc)
       \<and> resp_confidence (classify cfg u z vision sensor tc) \<le> 1"
proof (rule classify_bounds_aux)
  fix va d assume "vision = Some va" "d \<in> set (detections va)"
  then show "0 \<le> confidence d \<and> confidence d \<le> 1"
    using assms by (simp add: provider_contract_def list_all_iff)
next
  fix sa assume "sensor = Some sa"
  then show "0 \<le> sabotage_likelihood sa \<and> sabotage_likelihood sa \<le> 1"
    using assms by (simp add: provider_contract_def)
qed

subsection \<open>The classification call returns, and within bounds\<close>

lemma in_order_all_Inr:
  "(\<And>x. x \<in> set xs \<Longrightarrow> \<exists>v. x = Inr v) \<Longrightarrow> \<exists>vs. in_order xs = Inr vs"
proof (induction xs)
  case Nil
  then show ?case by simp
next
  case (Cons x xs)
  then obtain v where v: "x = Inr v" by auto
  from Cons obtain vs where "in_order xs = Inr vs" by auto
  then show ?case using v by simp
qed

lemma mk_RiskFactor_ok:
  "0 \<le> raw \<Longrightarrow> raw \<le> 1 \<Longrightarrow> 0 \<le> c \<Longrightarrow> 0 \<le> conf \<Longrightarrow> conf \<le> 1 \<Longrightarrow>
     \<exists>f. mk_RiskFactor fid cat w raw c conf = Inr f"
  by (simp add: mk_RiskFactor_def)

lemma or_default_unit:
  "unit_interval_or_none x \<Longrightarrow> 0 \<le> d \<Longrightarrow> d \<le> 1 \<Longrightarrow> 0 \<le> or_default x d \<and> or_default x d \<le> 1"
  by (auto simp: unit_interval_or_none_def or_default_def split: option.splits)

lemma vision_factor_ok:
  assumes "0 \<le> confidence d" "confidence d \<le> 1" "0 \<le> vision_weight cfg (class_label d)"
  shows "\<exists>f. vision_factor cfg d = Inr f"
proof -
  have "0 \<le> vision_weight cfg (class_label d) * confidence d" using assms by simp
  then have "0 \<le> py_round (vision_weight cfg (class_label d) * confidence d) 2"
    by (rule py_round2_bounds(1))
  then show ?thesis unfolding vision_factor_def Let_def
    using assms(1,2) by (intro mk_RiskFactor_ok)
qed

lemma severity_multiplier_nonneg: "0 \<le> severity_multiplier s"
  by (cases s) (simp_all add: severity_multiplier_def)

lemma sensor_factor_ok:
  assumes "0 \<le> sensor_weight cfg (anomaly_type a)" "unit_interval_or_none (isolation_score a)"
  shows "\<exists>f. sensor_factor cfg a = Inr f"
proof -
  have "0 \<le> sensor_weight cfg (anomaly_type a) * severity_multiplier (anomaly_severity a)"
    using assms(1) severity_multiplier_nonneg by simp
  then have c: "0 \<le> py_round (sensor_weight cfg (anomaly_type a) * severity_multiplier (anomaly_severity a)) 2"
    by (rule py_round2_bounds(1))
  have o: "0 \<le> or_default (isolation_score a) (1 / 2) \<and> or_default (isolation_score a) (1 / 2) \<le> 1"
    using assms(2) by (intro or_default_unit) simp_all
  show ?thesis unfolding sensor_factor_def Let_def
    using c o by (intro mk_RiskFactor_ok) simp_all
qed

lemma coordination_factor_ok:
  assumes "unit_interval_or_none (coordination_confidence sa)"
  shows "\<exists>f. coordination_factor sa = Inr f"
proof -
  have o: "0 \<le> or_default (coordination_confidence sa) (7 / 10)
         \<and> or_default (coordination_confidence sa) (7 / 10) \<le> 1"
    using assms by (intro or_default_unit) simp_all
  show ?thesis unfolding coordination_factor_def
    using o by (intro mk_RiskFactor_ok) simp_all
qed

lemma temporal_factor_ok:
  assumes "1 < time_risk_modifier tc" "time_risk_modifier tc \<le> 2"
  shows "\<exists>f. temporal_factor tc = Inr f"
  unfolding temporal_factor_def using assms by (intro mk_RiskFactor_ok) simp_all

lemma generate_risk_factors_ok:
  assumes "provider_contract vision sensor" and "admissible_call cfg hour vision sensor"
    and "tc = calculate_temporal_context cfg hour"
  shows "\<exists>fs. generate_risk_factors cfg vision sensor tc = Inr fs"
  unfolding generate_risk_factors_def
proof (rule in_order_all_Inr)
  fix x
  assume x: "x \<in> set ((case vision of None \<Rightarrow> [] | Some va \<Rightarrow> map (vision_factor cfg) (detections va))
        @ (case sensor of
             None \<Rightarrow> []
           | Some sa \<Rightarrow> map (sensor_factor cfg) (anomalies sa)
                        @ (if is_coordinated sa then [coordination_factor sa] else []))
        @ (if time_risk_modifier tc > 1 then [temporal_factor tc] else []))"
  then consider
      (v) va d where "vision = Some va" "d \<in> set (detections va)" "x = vision_factor cfg d"
    | (s) sa a where "sensor = Some sa" "a \<in> set (anomalies sa)" "x = sensor_factor cfg a"
    | (c) sa where "sensor = Some sa" "x = coordination_factor sa"
    | (t) "1 < time_risk_modifier tc" "x = temporal_factor tc"
    by (auto split: option.splits if_splits)
  then show "\<exists>v. x = Inr v"
  proof cases
    case v
    then show ?thesis using assms(1,2) vision_factor_ok[of d cfg]
      by (auto simp: provider_contract_def admissible_call_def list_all_iff)
  next
    case s
    then show ?thesis using assms(2) sensor_factor_ok[of cfg a]
      by (auto simp: admissible_call_def list_all_iff)
  next
    case c
    then show ?thesis using assms(2) coordination_factor_ok[of sa]
      by (auto simp: admissible_call_def)
  next
    case t
    then show ?thesis using assms(2,3) temporal_factor_ok[of tc]
      by (auto simp: admissible_call_def)
  qed
qed

lemma classify_component_scores:
  "0 \<le> resp_vision_risk_score (classify cfg u z vision sensor tc)
   \<and> resp_vision_risk_score (classify cfg u z vision sensor tc) \<le> 100
   \<and> 0 \<le> resp_sensor_risk_score (classify cfg u z vision sensor tc)
   \<and> resp_sensor_risk_score (classify cfg u z vision sensor tc) \<le> 100
   \<and> resp_temporal_modifier (classify cfg u z vision sensor tc) = time_risk_modifier tc"
  by (simp add: classify_def Let_def safe_clamp_def split: prod.splits)

lemma hour_of_day_context: "hour_of_day (calculate_temporal_context cfg hour) = hour"
  by (simp add: calculate_temporal_context_def Let_def)

text \<open>
  On an admissible call no constructor raises: the call returns the computed response.
\<close>

lemma call_returns_computed:
  assumes "provider_contract vision sensor" and a: "admissible_call cfg hour vision sensor"
  shows "\<exists>fs. IntentService_classify cfg u z hour vision sensor
                     = Inr (classify cfg u z vision sensor (calculate_temporal_context cfg hour), fs)"
proof -
  let ?tc = "calculate_temporal_context cfg hour"
  have t: "mk_TemporalContext ?tc = Inr ?tc"
    using a by (simp add: mk_TemporalContext_def admissible_call_def hour_of_day_context)
  obtain fs where fs: "generate_risk_factors cfg vision sensor ?tc = Inr fs"
    using generate_risk_factors_ok[OF assms refl] by blast
  have m: "mk_IntentClassifyResponse (classify cfg u z vision sensor ?tc)
             = Inr (classify cfg u z vision sensor ?tc)"
    using classify_fields_bounded[OF assms(1), of cfg u z ?tc]
      classify_component_scores[of cfg u z vision sensor ?tc] a
    by (simp add: mk_IntentClassifyResponse_def admissible_call_def)
  show ?thesis
    using t fs m by (simp add: IntentService_classify_def)
qed

text \<open>
  With the default configuration every hour of the day and every evidence that satisfies
  the constraints of its models is admissible.
\<close>

lemma default_config_admissible:
  assumes "hour \<le> 23"
    and "case sensor of None \<Rightarrow> True
         | Some sa \<Rightarrow> list_all (\<lambda>a. unit_interval_or_none (isolation_score a)) (anomalies sa)
                      \<and> unit_interval_or_none (coordination_confidence sa)"
  shows "admissible_call config hour vision sensor"
proof -
  have w: "1 / 2 \<le> time_risk_modifier (calculate_temporal_context config hour)
         \<and> time_risk_modifier (calculate_temporal_context config hour) \<le> 2"
    by (simp add: calculate_temporal_context_def config_def Let_def)
  have v: "0 \<le> vision_weight config c" for c
    by (cases c) (simp_all add: vision_weight_def config_def)
  have s: "0 \<le> sensor_weight config t" for t
    by (cases t) (simp_all add: sensor_weight_def config_def)
  show ?thesis
    using assms w v s
    by (auto simp: admissible_call_def list_all_iff split: option.splits)
qed

text \<open>
  Claim C1. Under the provider contract (every detection's confidence and the sensor
  sabotage likelihood lie in \<open>[0, 1]\<close>), and whatever the magnitude or sign of the supplied
  vision and sensor scores: every response that a classification call returns is the
  computed one and has its risk score in \<open>[0, 100]\<close> and its confidence in \<open>[0, 1]\<close>; the call
  does return, raising no \<^verbatim>\<open>ValidationError\<close>, whenever the hour and the configured
  weights are admissible, that is whenever the temporal multiplier is within the range
  \<open>[0.5, 2.0]\<close> of the temporal context; and the computed score and confidence are within
  their ranges for every temporal multiplier whatever.
\<close>

theorem classify_bounds:
  assumes "provider_contract vision sensor"
  shows "(\<forall>r fs. IntentService_classify cfg u z hour vision sensor = Inr (r, fs) \<longrightarrow>
            r = classify cfg u z vision sensor (calculate_temporal_context cfg hour)
          \<and> 0 \<le> resp_risk_score r \<and> resp_risk_score r \<le> 100
          \<and> 0 \<le> resp_confidence r \<and> resp_confidence r \<le> 1)
       \<and> (admissible_call cfg hour vision sensor \<longrightarrow>
            (\<exists>fs. IntentService_classify cfg u z hour vision sensor
                     = Inr (classify cfg u z vision sensor (calculate_temporal_context cfg hour), fs)))
       \<and> (\<forall>tc. 0 \<le> resp_risk_score (classify cfg u z vision sensor tc)
               \<and> resp_risk_score (classify cfg u z vision sensor tc) \<le> 100
               \<and> 0 \<le> resp_confidence (classify cfg u z vision sensor tc)
               \<and> resp_confidence (classify cfg u z vision sensor tc) \<le> 1)"
proof (intro conjI allI impI)
  fix r fs
  assume "IntentService_classify cfg u z hour vision sensor = Inr (r, fs)"
  then have r: "r = classify cfg u z vision sensor (calculate_temporal_context cfg hour)"
    by (auto simp: IntentService_classify_def mk_TemporalContext_def mk_IntentClassifyResponse_def
          split: sum.splits if_splits)
  then show "r = classify cfg u z vision sensor (calculate_temporal_context cfg hour)" .
  show "0 \<le> resp_risk_score r" "resp_risk_score r \<le> 100" "0 \<le> resp_confidence r"
    "resp_confidence r \<le> 1"
    using classify_fields_bounded[OF assms, of cfg u z "calculate_temporal_context cfg hour"] r by simp_all
next
  assume "admissible_call cfg hour vision sensor"
  with assms show "\<exists>fs. IntentService_classify cfg u z hour vision sensor
      = Inr (classify cfg u z vision sensor (calculate_temporal_context cfg hour), fs)"
    by (rule call_returns_computed)
next
  fix tc
  show "0 \<le> resp_risk_score (classify cfg u z vision sensor tc)"
    "resp_risk_score (classify cfg u z vision sensor tc) \<le> 100"
    "0 \<le> resp_confidence (classify cfg u z vision sensor tc)"
    "resp_confidence (classify cfg u z vision sensor tc) \<le> 1"
    using classify_fields_bounded[OF assms, of cfg u z tc] by simp_all
qed

text \<open>
  The theorem at vision and sensor scores of 100 at 23:00: the raw score 117 is clamped,
  and the call returns the risk score 100 with confidence 1.
\<close>

theorem classify_bounds_witness:
  "provider_contract
     (Some (evidence_vision 100
        [\<lparr>detection_id = ''d1'', class_label = TOOL_DETECTION, confidence = 1 / 2\<rparr>]))
     (Some (evidence_sensor 100))
   \<and> admissible_call config 23
     (Some (evidence_vision 100
        [\<lparr>detection_id = ''d1'', class_label = TOOL_DETECTION, confidence = 1 / 2\<rparr>]))
     (Some (evidence_sensor 100))
   \<and> (\<exists>r fs. IntentService_classify config ''0123456789abcdef'' ''ZONE-001'' 23
        (Some (evidence_vision 100
           [\<lparr>detection_id = ''d1'', class_label = TOOL_DETECTION, confidence = 1 / 2\<rparr>]))
        (Some (evidence_sensor 100)) = Inr (r, fs)
      \<and> resp_risk_score r = 100 \<and> resp_confidence r = 1
      \<and> 0 \<le> resp_risk_score r \<and> resp_risk_score r \<le> 100
      \<and> 0 \<le> resp_confidence r \<and> resp_confidence r \<le> 1)"
proof -
  let ?v = "Some (evidence_vision 100
        [\<lparr>detection_id = ''d1'', class_label = TOOL_DETECTION, confidence = 1 / 2\<rparr>])"
  let ?s = "Some (evidence_sensor 100)"
  have c: "provider_contract ?v ?s"
    by (simp add: provider_contract_def evidence_vision_def evidence_sensor_def)
  have a: "admissible_call config 23 ?v ?s"
    by (simp add: admissible_call_def calculate_temporal_context_def config_def vision_weight_def
          unit_interval_or_none_def evidence_vision_def evidence_sensor_def)
  have r1: "py_round 100 2 = 100" by (simp add: py_round_def Let_def)
  have r2: "py_round 1 2 = 1" by (simp add: py_round_def Let_def)
  have t: "threshold_classification config 100 = (CONFIRMED_TAMPERING, 1)"
    by (simp add: threshold_classification_def config_def Let_def r2)
  have w: "TIME_WEIGHTS config night_hours = 13 / 10" by (simp add: config_def)
  have v: "resp_risk_score (classify config ''0123456789abcdef'' ''ZONE-001'' ?v ?s
              (calculate_temporal_context config 23)) = 100
         \<and> resp_confidence (classify config ''0123456789abcdef'' ''ZONE-001'' ?v ?s
              (calculate_temporal_context config 23)) = 1"
    by (simp add: classify_def Let_def evidence_vision_def evidence_sensor_def
          calculate_temporal_context_def safe_clamp_def base_score_def safe_risk_score_def
          determine_classification_def w t r1)
  show ?thesis
    using c a v classify_bounds [OF c, of config "''0123456789abcdef''" "''ZONE-001''" 23]
    by auto
qed

text \<open>
  A configured night weight of 7 is outside the range of the temporal context: the call
  raises \<^verbatim>\<open>ValidationError\<close> and returns no response, while the computed score is still
  clamped to 100.
\<close>

lemma classify_rejects_multiplier_out_of_range:
  "IntentService_classify (config\<lparr>TIME_WEIGHTS := (\<lambda>b. 7)\<rparr>) ''0123456789abcdef'' ''ZONE-001'' 23
     (Some (evidence_vision 1000
        [\<lparr>detection_id = ''d1'', class_label = TOOL_DETECTION, confidence = 1 / 2\<rparr>]))
     (Some (evidence_sensor (- 50))) = Inl ValidationError"
  by (simp add: IntentService_classify_def mk_TemporalContext_def calculate_temporal_context_def
        config_def)

text \<open>
  The inputs at which the following sections evaluate \<open>classify\<close> are admissible: there the
  whole call returns, and what it returns is the value of \<open>classify\<close>. At noon the
  temporal context has the multiplier 1.
\<close>

lemma scenario_call_returns:
  "\<exists>fs. IntentService_classify config ''0123456789abcdef'' ''Z1'' 23
          (Some (evidence_vision 80 [])) (Some (evidence_sensor 70))
        = Inr (classify config ''0123456789abcdef'' ''Z1'' (Some (evidence_vision 80 []))
                 (Some (evidence_sensor 70)) (calculate_temporal_context config 23), fs)"
  by (rule call_returns_computed)
     (simp_all add: provider_contract_def default_config_admissible evidence_vision_def
        evidence_sensor_def unit_interval_or_none_def)

lemma gap_score_call_returns:
  "\<exists>fs. IntentService_classify config ''0123456789abcdef'' ''Z1'' 12
          (Some (evidence_vision 100 [])) (Some (evidence_sensor 10))
        = Inr (classify config ''0123456789abcdef'' ''Z1'' (Some (evidence_vision 100 []))
                 (Some (evidence_sensor 10)) (calculate_temporal_context config 12), fs)"
  by (rule call_returns_computed)
     (simp_all add: provider_contract_def default_config_admissible evidence_vision_def
        evidence_sensor_def unit_interval_or_none_def)

lemma override_call_returns:
  "\<exists>fs. IntentService_classify config ''0123456789abcdef'' ''ZONE-001'' 12
          (Some (evidence_vision 0
             [\<lparr>detection_id = ''d1'', class_label = MISSING_FISH_PLATE, confidence = 9 / 10\<rparr>]))
          (Some (evidence_sensor 0))
        = Inr (classify config ''0123456789abcdef'' ''ZONE-001''
                 (Some (evidence_vision 0
                    [\<lparr>detection_id = ''d1'', class_label = MISSING_FISH_PLATE, confidence = 9 / 10\<rparr>]))
                 (Some (evidence_sensor 0)) (calculate_temporal_context config 12), fs)"
  by (rule call_returns_computed)
     (simp_all add: provider_contract_def default_config_admissible evidence_vision_def
        evidence_sensor_def unit_interval_or_none_def)

lemma noon_context: "calculate_temporal_context config 12 = context_with_modifier 1"
  by (simp add: calculate_temporal_context_def context_with_modifier_def)

subsection \<open>Override rules\<close>

lemma find_override_scan:
  "override_scan ds = map_option (\<lambda>d. (CONFIRMED_TAMPERING, confidence d)) (find high_confidence_override ds)"
  by (induction ds) (auto simp: high_confidence_override_def)

text \<open>
  Claim C2. Whenever the vision evidence contains a detection of class
  \<^verbatim>\<open>missing_fish_plate\<close> or \<^verbatim>\<open>track_displacement\<close> with confidence at least 0.85, the
  classification is CONFIRMED\_TAMPERING and the confidence of the result is the
  confidence of that detection, whatever the vision score, the sensor score, the sensor
  evidence and the temporal multiplier. The loop returns at the first such detection in
  list order, which is the detection \<open>d'\<close> below.
\<close>

theorem override_precedence:
  assumes "d \<in> set (detections va)" and "high_confidence_override d"
  shows "resp_classification (classify cfg u z (Some va) sensor tc) = CONFIRMED_TAMPERING
       \<and> (\<exists>d' \<in> set (detections va). high_confidence_override d'
              \<and> find high_confidence_override (detections va) = Some d'
              \<and> resp_confidence (classify cfg u z (Some va) sensor tc) = confidence d')
       \<and> ((\<forall>d'' \<in> set (detections va). high_confidence_override d''
               \<longrightarrow> confidence d'' = confidence d)
            \<longrightarrow> resp_confidence (classify cfg u z (Some va) sensor tc) = confidence d)"
proof -
  from assms obtain d' where d': "find high_confidence_override (detections va) = Some d'"
    by (cases "find high_confidence_override (detections va)") (auto simp: find_None_iff)
  then have m: "d' \<in> set (detections va)" and h: "high_confidence_override d'"
    by (auto simp: find_Some_iff)
  from d' have "override_scan (detections va) = Some (CONFIRMED_TAMPERING, confidence d')"
    by (simp add: find_override_scan)
  then have "determine_classification cfg rs (Some va) sensor = (CONFIRMED_TAMPERING, confidence d')"
    for rs
    by (simp add: determine_classification_def)
  then have r: "resp_classification (classify cfg u z (Some va) sensor tc) = CONFIRMED_TAMPERING"
    "resp_confidence (classify cfg u z (Some va) sensor tc) = confidence d'"
    by (simp_all add: classify_def Let_def split: prod.splits)
  show ?thesis using r d' m h by auto
qed

text \<open>
  The theorem at a \<^verbatim>\<open>missing_fish_plate\<close> detection of confidence 0.9 with vision score 0,
  sensor score 0 and multiplier 1.0, where the thresholds alone give SAFE.
\<close>

theorem override_precedence_witness:
  "\<lparr>detection_id = ''d1'', class_label = MISSING_FISH_PLATE, confidence = 9 / 10\<rparr>
      \<in> set (detections (evidence_vision 0
           [\<lparr>detection_id = ''d1'', class_label = MISSING_FISH_PLATE, confidence = 9 / 10\<rparr>]))
   \<and> high_confidence_override
        \<lparr>detection_id = ''d1'', class_label = MISSING_FISH_PLATE, confidence = 9 / 10\<rparr>
   \<and> resp_classification (classify config ''0123456789abcdef'' ''ZONE-001''
        (Some (evidence_vision 0
           [\<lparr>detection_id = ''d1'', class_label = MISSING_FISH_PLATE, confidence = 9 / 10\<rparr>]))
        (Some (evidence_sensor 0)) (context_with_modifier 1)) = CONFIRMED_TAMPERING
   \<and> resp_confidence (classify config ''0123456789abcdef'' ''ZONE-001''
        (Some (evidence_vision 0
           [\<lparr>detection_id = ''d1'', class_label = MISSING_FISH_PLATE, confidence = 9 / 10\<rparr>]))
        (Some (evidence_sensor 0)) (context_with_modifier 1)) = 9 / 10
   \<and> fst (threshold_classification config 0) = SAFE"
proof -
  let ?d = "\<lparr>detection_id = ''d1'', class_label = MISSING_FISH_PLATE, confidence = 9 / 10\<rparr>"
  have m: "?d \<in> set (detections (evidence_vision 0 [?d]))"
    by (simp add: evidence_vision_def)
  have h: "high_confidence_override ?d"
    by (simp add: high_confidence_override_def)
  have f: "find high_confidence_override (detections (evidence_vision 0 [?d])) = Some ?d"
    using h by (simp add: evidence_vision_def)
  have t: "fst (threshold_classification config 0) = SAFE"
    by (simp add: threshold_classification_def config_def Let_def)
  show ?thesis
    using m h t f override_precedence [OF m h, of config "''0123456789abcdef''" "''ZONE-001''"
        "Some (evidence_sensor 0)" "context_with_modifier 1"]
    by auto
qed

subsection \<open>End-to-end scenario\<close>

lemma update_fresh: "k \<notin> fst ` set al \<Longrightarrow> AList.update k v al = al @ [(k, v)]"
  by (induction al) auto

lemma scenario_response:
  assumes "vision_risk_score va = 80" and "sensor_risk_score sa = 70"
    and "time_risk_modifier tc = 13 / 10"
    and "override_scan (detections va) = None"
    and "\<not> (is_coordinated sa \<and> sabotage_likelihood sa \<ge> 7 / 10)"
  shows "classify config u z (Some va) (Some sa) tc =
     \<lparr> resp_classification_id = ''cls_'' @ take 12 u, resp_zone_id = z,
       resp_classification = CONFIRMED_TAMPERING, resp_risk_score = 351 / 4,
       resp_confidence = 91 / 100, resp_vision_risk_score = 80, resp_sensor_risk_score = 70,
       resp_temporal_modifier = 13 / 10, resp_clamp_reason = None \<rparr>"
proof -
  have r1: "py_round (351 / 4) 2 = 351 / 4" by (simp add: py_round_def Let_def)
  have r2: "py_round (1453 / 1600) 2 = 91 / 100" by (simp add: py_round_def Let_def)
  have t: "threshold_classification config (351 / 4) = (CONFIRMED_TAMPERING, 91 / 100)"
    by (simp add: threshold_classification_def config_def Let_def r2)
  have d: "determine_classification config (351 / 4) (Some va) (Some sa) = (CONFIRMED_TAMPERING, 91 / 100)"
    using assms(4,5) t by (auto simp: determine_classification_def)
  show ?thesis
    unfolding classify_def Let_def option.case assms(1) assms(2) assms(3)
    by (simp add: safe_clamp_def base_score_def safe_risk_score_def d r1)
qed

text \<open>
  Claim C3, as amended. With the default thresholds and no override firing, a vision score
  of 80, a sensor score of 70 and a temporal multiplier of 1.3 give the base score 67.5,
  the final risk score 87.75 and the classification CONFIRMED\_TAMPERING with confidence
  0.91 (the claim says about 0.83); for a zone with no prior alerts the route creates
  exactly one alert, of severity CRITICAL.
\<close>

theorem end_to_end_scenario:
  assumes "vision_risk_score va = 80" and "sensor_risk_score sa = 70"
    and "time_risk_modifier tc = 13 / 10"
    and "override_scan (detections va) = None"
    and "\<not> (is_coordinated sa \<and> sabotage_likelihood sa \<ge> 7 / 10)"
    and "zone_last_alert st z = None"
    and "(case zone_alert_counts st z of None \<Rightarrow> [] | Some ts \<Rightarrow> ts) = []"
    and "''alert_'' @ take 12 u2 \<notin> fst ` set (alerts st)"
  shows "base_score 80 70 = 135 / 2
       \<and> resp_risk_score (classify config u z (Some va) (Some sa) tc) = 351 / 4
       \<and> resp_classification (classify config u z (Some va) (Some sa) tc) = CONFIRMED_TAMPERING
       \<and> resp_confidence (classify config u z (Some va) (Some sa) tc) = 91 / 100
       \<and> (\<exists>a st'. classify_intent_alert config st (classify config u z (Some va) (Some sa) tc)
                      rsns u2 clk = (Inr (Some a), st')
                 \<and> severity a = CRITICAL
                 \<and> alerts st' = alerts st @ [(alert_id a, a)])"
proof -
  note r = scenario_response[OF assms(1-5), of u z]
  have b: "base_score 80 70 = 135 / 2" by (simp add: base_score_def)
  have s: "determine_severity config (351 / 4) = CRITICAL"
    by (simp add: determine_severity_def config_def)
  have cd: "check_cooldown config st z t" for t
    using assms(6) by (simp add: check_cooldown_def)
  have fl: "check_flooding config st z t = (True, st\<lparr>zone_alert_counts := (zone_alert_counts st)(z \<mapsto> [])\<rparr>)" for t
    using assms(7) by (simp add: check_flooding_def Let_def config_def)
  have "\<exists>a st'. classify_intent_alert config st (classify config u z (Some va) (Some sa) tc)
                      rsns u2 clk = (Inr (Some a), st')
                 \<and> severity a = CRITICAL
                 \<and> alerts st' = alerts st @ [(alert_id a, a)]"
    unfolding r
    using assms(8)
    by (simp add: classify_intent_alert_def create_alert_from_classification_def cd fl s Let_def
          update_fresh)
  then show ?thesis using r b by simp
qed

text \<open>
  The scenario of claim C3 evaluated: the confidence is \<open>0.7 + (87.75 - 60) / 40 * 0.3 =
  0.908125\<close>, rounded to 0.91, which is 0.08 away from the 0.83 of the claim.
\<close>

theorem scenario_confidence_counterexample:
  "resp_confidence (classify config ''0123456789abcdef'' ''Z1'' (Some (evidence_vision 80 []))
      (Some (evidence_sensor 70)) (calculate_temporal_context config 23)) = 91 / 100
   \<and> \<bar>resp_confidence (classify config ''0123456789abcdef'' ''Z1'' (Some (evidence_vision 80 []))
      (Some (evidence_sensor 70)) (calculate_temporal_context config 23)) - 83 / 100\<bar> = 8 / 100"
proof -
  have "resp_confidence (classify config ''0123456789abcdef'' ''Z1'' (Some (evidence_vision 80 []))
      (Some (evidence_sensor 70)) (calculate_temporal_context config 23)) = 91 / 100"
    by (subst scenario_response)
       (simp_all add: evidence_vision_def evidence_sensor_def calculate_temporal_context_def config_def)
  then show ?thesis by simp
qed

text \<open>The amended claim C3 at zone Z1, at 23:00, on a service that holds no alert.\<close>

theorem end_to_end_scenario_witness:
  "vision_risk_score (evidence_vision 80 []) = 80
   \<and> sensor_risk_score (evidence_sensor 70) = 70
   \<and> time_risk_modifier (calculate_temporal_context config 23) = 13 / 10
   \<and> override_scan (detections (evidence_vision 80 [])) = None
   \<and> \<not> (is_coordinated (evidence_sensor 70) \<and> sabotage_likelihood (evidence_sensor 70) \<ge> 7 / 10)
   \<and> zone_last_alert AlertService_init ''Z1'' = None
   \<and> (case zone_alert_counts AlertService_init ''Z1'' of None \<Rightarrow> [] | Some ts \<Rightarrow> ts) = []
   \<and> ''alert_'' @ take 12 ''fedcba9876543210'' \<notin> fst ` set (alerts AlertService_init)
   \<and> resp_risk_score (classify config ''0123456789abcdef'' ''Z1'' (Some (evidence_vision 80 []))
        (Some (evidence_sensor 70)) (calculate_temporal_context config 23)) = 351 / 4
   \<and> resp_classification (classify config ''0123456789abcdef'' ''Z1'' (Some (evidence_vision 80 []))
        (Some (evidence_sensor 70)) (calculate_temporal_context config 23)) = CONFIRMED_TAMPERING
   \<and> resp_confidence (classify config ''0123456789abcdef'' ''Z1'' (Some (evidence_vision 80 []))
        (Some (evidence_sensor 70)) (calculate_temporal_context config 23)) = 91 / 100
   \<and> (\<exists>a st'. classify_intent_alert config AlertService_init
                 (classify config ''0123456789abcdef'' ''Z1'' (Some (evidence_vision 80 []))
                    (Some (evidence_sensor 70)) (calculate_temporal_context config 23))
                 [''reason''] ''fedcba9876543210'' (clock_at 1000) = (Inr (Some a), st')
            \<and> severity a = CRITICAL
            \<and> alerts st' = [(alert_id a, a)])"
proof -
  have h1: "vision_risk_score (evidence_vision 80 []) = 80" by (simp add: evidence_vision_def)
  have h2: "sensor_risk_score (evidence_sensor 70) = 70" by (simp add: evidence_sensor_def)
  have h3: "time_risk_modifier (calculate_temporal_context config 23) = 13 / 10"
    by (simp add: calculate_temporal_context_def config_def)
  have h4: "override_scan (detections (evidence_vision 80 [])) = None"
    by (simp add: evidence_vision_def)
  have h5: "\<not> (is_coordinated (evidence_sensor 70) \<and> sabotage_likelihood (evidence_sensor 70) \<ge> 7 / 10)"
    by (simp add: evidence_sensor_def)
  have h6: "zone_last_alert AlertService_init ''Z1'' = None" by (simp add: AlertService_init_def)
  have h7: "(case zone_alert_counts AlertService_init ''Z1'' of None \<Rightarrow> [] | Some ts \<Rightarrow> ts) = []"
    by (simp add: AlertService_init_def)
  have h8: "''alert_'' @ take 12 ''fedcba9876543210'' \<notin> fst ` set (alerts AlertService_init)"
    by (simp add: AlertService_init_def)
  have e: "alerts AlertService_init = []" by (simp add: AlertService_init_def)
  show ?thesis
    using h1 h2 h3 h4 h5 h6 h7 h8
      end_to_end_scenario [OF h1 h2 h3 h4 h5 h6 h7 h8, of "''0123456789abcdef''" "[''reason'']" "clock_at 1000"]
    by (simp add: e)
qed

subsection \<open>Alert creation\<close>

text \<open>
  Claim C4. For a SAFE classification \<^verbatim>\<open>create_alert_from_classification\<close> returns
  \<^verbatim>\<open>None\<close> and leaves the alert registry and both per-zone gate dictionaries as they
  were, whatever the zone, the score, the clock and the state of the service.
\<close>

theorem safe_classification_creates_no_alert:
  "create_alert_from_classification cfg st zone cid SAFE risk rsns uuid_hex clk = (Inr None, st)"
  by (simp add: create_alert_from_classification_def)

lemma create_alert_last_alert:
  assumes "create_alert_from_classification cfg st zone cid cls risk rsns uuid_hex clk = (Inr (Some a), st1)"
  shows "zone_last_alert st1 zone = Some (now_last_alert clk)"
  using assms
  by (auto simp: create_alert_from_classification_def check_flooding_def Let_def
           split: if_splits prod.splits)

text \<open>
  Claim C8. When a call has created an alert for a zone and the next call for that zone
  reads the clock less than the cooldown window after the time the first call stored as
  the zone's last alert, the second call returns \<^verbatim>\<open>None\<close> and changes nothing: the pair
  produces exactly one alert. The classification and the score of the second call are
  arbitrary.
\<close>

theorem cooldown_suppresses_second_alert:
  assumes "create_alert_from_classification cfg st zone cid1 cls1 risk1 rsns1 uuid1 clk1
             = (Inr (Some a), st1)"
    and "now_cooldown clk2 - now_last_alert clk1 < ALERT_COOLDOWN_SECONDS cfg"
  shows "create_alert_from_classification cfg st1 zone cid2 cls2 risk2 rsns2 uuid2 clk2
             = (Inr None, st1)"
proof -
  have "zone_last_alert st1 zone = Some (now_last_alert clk1)"
    using assms(1) by (rule create_alert_last_alert)
  then have "\<not> check_cooldown cfg st1 zone (now_cooldown clk2)"
    using assms(2) by (simp add: check_cooldown_def)
  then show ?thesis
    by (simp add: create_alert_from_classification_def)
qed

text \<open>Claim C8 at two SUSPICIOUS classifications of zone Z1, 299 seconds apart.\<close>

theorem cooldown_suppresses_second_alert_witness:
  "\<exists>a st1.
      create_alert_from_classification config AlertService_init ''Z1'' ''cls_000000000001''
        SUSPICIOUS 40 [''r''] ''0123456789abcdef'' (clock_at 1000) = (Inr (Some a), st1)
    \<and> now_cooldown (clock_at 1299) - now_last_alert (clock_at 1000) < ALERT_COOLDOWN_SECONDS config
    \<and> create_alert_from_classification config st1 ''Z1'' ''cls_000000000002''
        SUSPICIOUS 45 [''r''] ''fedcba9876543210'' (clock_at 1299) = (Inr None, st1)"
proof -
  obtain r st1 where c: "create_alert_from_classification config AlertService_init ''Z1''
        ''cls_000000000001'' SUSPICIOUS 40 [''r''] ''0123456789abcdef'' (clock_at 1000) = (r, st1)"
    by (cases "create_alert_from_classification config AlertService_init ''Z1''
        ''cls_000000000001'' SUSPICIOUS 40 [''r''] ''0123456789abcdef'' (clock_at 1000)")
  then obtain a where a: "r = Inr (Some a)"
    by (auto simp: create_alert_from_classification_def check_cooldown_def check_flooding_def
          AlertService_init_def config_def clock_at_def Let_def)
  have t: "now_cooldown (clock_at 1299) - now_last_alert (clock_at 1000) < ALERT_COOLDOWN_SECONDS config"
    by (simp add: clock_at_def config_def)
  show ?thesis
    using c a t cooldown_suppresses_second_alert [OF c [unfolded a] t]
    by blast
qed

subsection \<open>Severity\<close>

text \<open>The severity that the default configuration gives to each score.\<close>

lemma determine_severity_default:
  "determine_severity config r =
     (if 25 \<le> r \<and> r \<le> 49 then LOW
      else if 50 \<le> r \<and> r \<le> 69 then MEDIUM
      else if 70 \<le> r \<and> r \<le> 84 then HIGH
      else if 85 \<le> r \<and> r \<le> 100 then CRITICAL
      else if r < 25 then LOW else CRITICAL)"
  by (simp add: determine_severity_def config_def)

text \<open>
  Claim C7 fails on the code. The configured ranges have integer bounds, \<open>(25, 49)\<close>,
  \<open>(50, 69)\<close>, \<open>(70, 84)\<close>, \<open>(85, 100)\<close>, and a risk score is rounded to two decimals, so a
  score strictly between two ranges is in none of them; it is not below 25, and the
  fallback returns CRITICAL. At 49.5 (reached by a vision score of 100 and a sensor score
  of 10 at noon, classified SUSPICIOUS) the severity is CRITICAL.
\<close>

theorem severity_gap_yields_critical:
  "resp_risk_score (classify config ''0123456789abcdef'' ''Z1'' (Some (evidence_vision 100 []))
      (Some (evidence_sensor 10)) (calculate_temporal_context config 12)) = 99 / 2
   \<and> resp_classification (classify config ''0123456789abcdef'' ''Z1''
      (Some (evidence_vision 100 [])) (Some (evidence_sensor 10))
      (calculate_temporal_context config 12)) = SUSPICIOUS
   \<and> severity_scan (SEVERITY_THRESHOLDS config) (99 / 2) = None
   \<and> determine_severity config (99 / 2) = CRITICAL"
proof -
  have r1: "py_round (99 / 2) 2 = 99 / 2" by (simp add: py_round_def Let_def)
  have r2: "py_round (71 / 100) 2 = 71 / 100" by (simp add: py_round_def Let_def)
  have t: "threshold_classification config (99 / 2) = (SUSPICIOUS, 71 / 100)"
    by (simp add: threshold_classification_def config_def Let_def r2)
  have c: "classify config ''0123456789abcdef'' ''Z1'' (Some (evidence_vision 100 []))
      (Some (evidence_sensor 10)) (calculate_temporal_context config 12)
      = \<lparr> resp_classification_id = ''cls_0123456789ab'', resp_zone_id = ''Z1'',
            resp_classification = SUSPICIOUS, resp_risk_score = 99 / 2,
            resp_confidence = 71 / 100, resp_vision_risk_score = 100,
            resp_sensor_risk_score = 10, resp_temporal_modifier = 1,
            resp_clamp_reason = None \<rparr>"
    by (simp add: classify_def Let_def evidence_vision_def evidence_sensor_def
          calculate_temporal_context_def safe_clamp_def base_score_def safe_risk_score_def
          determine_classification_def t r1)
  have s: "severity_scan (SEVERITY_THRESHOLDS config) (99 / 2) = None
         \<and> determine_severity config (99 / 2) = CRITICAL"
    by (simp add: determine_severity_def config_def)
  show ?thesis using s by (simp add: c)
qed

subsection \<open>Resolution\<close>

lemma state_with_alert_75:
  "alerts (state_with_alert CONFIRMED_TAMPERING 75) =
    [(''alert_0123456789ab'',
      \<lparr>alert_id = ''alert_0123456789ab'', zone_id = ''Z1'',
         classification_id = ''cls_0123456789ab'', severity = HIGH,
         status = ACTIVE, risk_score = 75,
         classification = CONFIRMED_TAMPERING,
         title = TamperingDetected ''Z1'',
         description = HighConfidenceEvidence 75, reasons = [],
         created_at = 1000, updated_at = 1000, expires_at = None,
         acknowledged = False, acknowledged_by = None,
         acknowledged_at = None, acknowledgement_notes = None,
         escalation_level = INITIAL, escalated_at = None,
         resolved_at = None, resolution_notes = None, evidence_urls = [],
         is_simulated = True\<rparr>)]"
  by (simp add: state_with_alert_def create_alert_from_classification_def check_cooldown_def
        check_flooding_def AlertService_init_def config_def clock_at_def Let_def
        determine_severity_def generate_title_def generate_description_def)

lemma add_entry_last: "last (entries (add_entry cfg au entry)) = entry"
  by (simp add: add_entry_def Let_def)

text \<open>
  Claim C9, as amended. A request whose notes have fewer than 10 characters cannot be
  built. For an unknown alert id \<^verbatim>\<open>resolve_alert\<close> returns the miss \<^verbatim>\<open>None\<close> and changes
  nothing, and the route answers with status 404. For a known id the stored alert gets the
  status RESOLVED, the resolution time, the resolution notes and the update time, and
  nothing else changes. Who resolved the alert and the ground-truth flag have no effect on
  what \<^verbatim>\<open>resolve_alert\<close> returns and stores, since no field of the alert holds them; the
  route writes them, with the notes, into the details of the audit entry it appends.
\<close>

theorem resolve_alert_records_notes:
  assumes "mk_AlertResolveRequest aid by_whom notes flag = Inr request"
  shows "length notes \<ge> 10
       \<and> (map_of (alerts st) aid = None \<longrightarrow>
            resolve_alert st request t1 t2 = (None, st)
          \<and> resolve_alert_route cfg st au request t1 t2 u t3
              = (Inl (HTTPException 404 (''Alert not found: '' @ aid)), st, au))
       \<and> (\<forall>alert. map_of (alerts st) aid = Some alert \<longrightarrow>
            resolve_alert st request t1 t2 =
              (Some (alert\<lparr> status := RESOLVED, resolved_at := Some t1,
                             resolution_notes := Some notes, updated_at := t2 \<rparr>),
               st\<lparr>alerts := AList.update aid
                     (alert\<lparr> status := RESOLVED, resolved_at := Some t1,
                             resolution_notes := Some notes, updated_at := t2 \<rparr>) (alerts st)\<rparr>)
          \<and> details (last (entries (snd (snd (resolve_alert_route cfg st au request t1 t2 u t3)))))
              = [(''resolved_by'', StrValue by_whom), (''resolution_notes'', StrValue notes),
                 (''was_actual_tampering'', BoolValue flag)])
       \<and> (\<forall>by_whom' flag'.
            resolve_alert st (request\<lparr>resolved_by := by_whom', was_actual_tampering := flag'\<rparr>) t1 t2
              = resolve_alert st request t1 t2)"
proof -
  from assms have len: "length notes \<ge> 10"
    and req: "request = \<lparr> req_alert_id = aid, resolved_by = by_whom, req_resolution_notes = notes,
                 was_actual_tampering = flag \<rparr>"
    by (auto simp: mk_AlertResolveRequest_def split: if_splits)
  show ?thesis using len
    by (simp add: req resolve_alert_def resolve_alert_route_def log_alert_event_def
          add_entry_last Let_def split: option.splits)
qed

text \<open>
  Claim C9 as stated fails: two requests that differ in \<^verbatim>\<open>resolved_by\<close> and in
  \<^verbatim>\<open>was_actual_tampering\<close> leave the same alert and the same service state, so neither value
  is recorded.
\<close>

theorem resolve_alert_drops_resolver_counterexample:
  "mk_AlertResolveRequest ''alert_0123456789ab'' ''alice'' ''tampering confirmed on site'' True
     = Inr \<lparr> req_alert_id = ''alert_0123456789ab'', resolved_by = ''alice'',
             req_resolution_notes = ''tampering confirmed on site'', was_actual_tampering = True \<rparr>
   \<and> mk_AlertResolveRequest ''alert_0123456789ab'' ''bob'' ''tampering confirmed on site'' False
     = Inr \<lparr> req_alert_id = ''alert_0123456789ab'', resolved_by = ''bob'',
             req_resolution_notes = ''tampering confirmed on site'', was_actual_tampering = False \<rparr>
   \<and> map_of (alerts (state_with_alert CONFIRMED_TAMPERING 75)) ''alert_0123456789ab'' \<noteq> None
   \<and> resolve_alert (state_with_alert CONFIRMED_TAMPERING 75)
        \<lparr> req_alert_id = ''alert_0123456789ab'', resolved_by = ''alice'',
          req_resolution_notes = ''tampering confirmed on site'', was_actual_tampering = True \<rparr> 2000 2000
     = resolve_alert (state_with_alert CONFIRMED_TAMPERING 75)
        \<lparr> req_alert_id = ''alert_0123456789ab'', resolved_by = ''bob'',
          req_resolution_notes = ''tampering confirmed on site'', was_actual_tampering = False \<rparr> 2000 2000"
  by (simp add: mk_AlertResolveRequest_def resolve_alert_def state_with_alert_75)

text \<open>The amended claim C9 at a known and at an unknown alert id.\<close>

theorem resolve_alert_records_notes_witness:
  "mk_AlertResolveRequest ''alert_0123456789ab'' ''alice'' ''tampering confirmed on site'' True
     = Inr \<lparr> req_alert_id = ''alert_0123456789ab'', resolved_by = ''alice'',
             req_resolution_notes = ''tampering confirmed on site'', was_actual_tampering = True \<rparr>
   \<and> (\<exists>alert. map_of (alerts (state_with_alert CONFIRMED_TAMPERING 75)) ''alert_0123456789ab''
                  = Some alert
         \<and> fst (resolve_alert (state_with_alert CONFIRMED_TAMPERING 75)
              \<lparr> req_alert_id = ''alert_0123456789ab'', resolved_by = ''alice'',
                req_resolution_notes = ''tampering confirmed on site'',
                was_actual_tampering = True \<rparr> 2000 2001)
            = Some (alert\<lparr> status := RESOLVED, resolved_at := Some 2000,
                      resolution_notes := Some ''tampering confirmed on site'',
                      updated_at := 2001 \<rparr>))
   \<and> details (last (entries (snd (snd (resolve_alert_route config
        (state_with_alert CONFIRMED_TAMPERING 75) AuditService_sample
        \<lparr> req_alert_id = ''alert_0123456789ab'', resolved_by = ''alice'',
          req_resolution_notes = ''tampering confirmed on site'', was_actual_tampering = True \<rparr>
        2000 2001 ''89abcdef01234567'' 2002)))))
       = [(''resolved_by'', StrValue ''alice''),
          (''resolution_notes'', StrValue ''tampering confirmed on site''),
          (''was_actual_tampering'', BoolValue True)]
   \<and> map_of (alerts AlertService_init) ''alert_0123456789ab'' = None
   \<and> resolve_alert AlertService_init
        \<lparr> req_alert_id = ''alert_0123456789ab'', resolved_by = ''alice'',
          req_resolution_notes = ''tampering confirmed on site'', was_actual_tampering = True \<rparr>
        2000 2001 = (None, AlertService_init)
   \<and> fst (resolve_alert_route config AlertService_init AuditService_sample
        \<lparr> req_alert_id = ''alert_0123456789ab'', resolved_by = ''alice'',
          req_resolution_notes = ''tampering confirmed on site'', was_actual_tampering = True \<rparr>
        2000 2001 ''89abcdef01234567'' 2002)
       = Inl (HTTPException 404 ''Alert not found: alert_0123456789ab'')"
proof -
  let ?req = "\<lparr> req_alert_id = ''alert_0123456789ab'', resolved_by = ''alice'',
             req_resolution_notes = ''tampering confirmed on site'', was_actual_tampering = True \<rparr>"
  have m: "mk_AlertResolveRequest ''alert_0123456789ab'' ''alice'' ''tampering confirmed on site'' True
     = Inr ?req"
    by (simp add: mk_AlertResolveRequest_def)
  have k: "\<exists>alert. map_of (alerts (state_with_alert CONFIRMED_TAMPERING 75)) ''alert_0123456789ab''
                  = Some alert"
    by (simp add: state_with_alert_75)
  have n: "map_of (alerts AlertService_init) ''alert_0123456789ab'' = None"
    by (simp add: AlertService_init_def)
  show ?thesis
    using m k n
      resolve_alert_records_notes [OF m, of "state_with_alert CONFIRMED_TAMPERING 75" 2000 2001
        config AuditService_sample "''89abcdef01234567''" 2002]
      resolve_alert_records_notes [OF m, of AlertService_init 2000 2001
        config AuditService_sample "''89abcdef01234567''" 2002]
    by auto
qed

subsection \<open>Escalation\<close>

lemma escalate_alert_cases:
  "escalate_alert cfg now a = Inr a
   \<or> (status a = ACTIVE \<and> \<not> acknowledged a \<and> escalation_level a \<noteq> EMERGENCY
      \<and> escalate_alert cfg now a
           = Inr (a\<lparr> escalation_level :=
                        (case escalation_level a of INITIAL \<Rightarrow> SUPERVISOR
                         | SUPERVISOR \<Rightarrow> MANAGER | _ \<Rightarrow> EMERGENCY),
                      escalated_at := Some now, status := ESCALATED \<rparr>))"
  by (cases "escalation_level a") (simp_all add: escalate_alert_def EscalationLevel_of_def Let_def)

lemma escalate_alert_total: "\<exists>a'. escalate_alert cfg now a = Inr a'"
  using escalate_alert_cases[of cfg now a] by auto

lemma escalation_loop_map_of:
  "map_of al k = Some a \<Longrightarrow>
     \<exists>a'. escalate_alert cfg now a = Inr a' \<and> map_of (snd (escalation_loop cfg now al)) k = Some a'"
proof (induction al)
  case Nil
  then show ?case by simp
next
  case (Cons p al)
  obtain k0 a0 where p: "p = (k0, a0)" by (cases p)
  obtain a0' where a0': "escalate_alert cfg now a0 = Inr a0'"
    using escalate_alert_total by blast
  obtain r rest' where rl: "escalation_loop cfg now al = (r, rest')"
    by (cases "escalation_loop cfg now al")
  show ?case
  proof (cases "k0 = k")
    case True
    then show ?thesis using Cons.prems p a0' rl by simp
  next
    case False
    then show ?thesis using Cons p a0' rl by simp
  qed
qed

lemma escalation_loop_no_error: "fst (escalation_loop cfg now al) = None"
proof (induction al)
  case Nil
  then show ?case by simp
next
  case (Cons p al)
  obtain k0 a0 where p: "p = (k0, a0)" by (cases p)
  obtain a0' where a0': "escalate_alert cfg now a0 = Inr a0'"
    using escalate_alert_total by blast
  obtain r rest' where rl: "escalation_loop cfg now al = (r, rest')"
    by (cases "escalation_loop cfg now al")
  show ?case using Cons p a0' rl by simp
qed

lemma check_escalations_never_raises: "fst (check_escalations cfg st now) = None"
  using escalation_loop_no_error[of cfg now "alerts st"]
  by (cases "escalation_loop cfg now (alerts st)") (simp add: check_escalations_def)

lemma check_escalations_map_of:
  assumes "map_of (alerts st) k = Some a"
  shows "\<exists>a'. escalate_alert cfg now a = Inr a'
            \<and> map_of (alerts (snd (check_escalations cfg st now))) k = Some a'"
proof -
  obtain r al' where rl: "escalation_loop cfg now (alerts st) = (r, al')"
    by (cases "escalation_loop cfg now (alerts st)")
  then show ?thesis
    using escalation_loop_map_of[OF assms, of cfg now]
    by (simp add: check_escalations_def)
qed

lemma escalated_fixed: "status a = ESCALATED \<Longrightarrow> escalate_alert cfg now a = Inr a"
  by (simp add: escalate_alert_def)

lemma one_step_invariant_preserved:
  assumes "one_step_invariant a" and "escalate_alert cfg now a = Inr a'"
  shows "one_step_invariant a'"
proof -
  from escalate_alert_cases[of cfg now a] show ?thesis
  proof
    assume "escalate_alert cfg now a = Inr a"
    then show ?thesis using assms by simp
  next
    assume h: "status a = ACTIVE \<and> \<not> acknowledged a \<and> escalation_level a \<noteq> EMERGENCY
      \<and> escalate_alert cfg now a
           = Inr (a\<lparr> escalation_level :=
                        (case escalation_level a of INITIAL \<Rightarrow> SUPERVISOR
                         | SUPERVISOR \<Rightarrow> MANAGER | _ \<Rightarrow> EMERGENCY),
                      escalated_at := Some now, status := ESCALATED \<rparr>)"
    with assms(1) have "escalation_level a = INITIAL" by (auto simp: one_step_invariant_def)
    with h assms(2) show ?thesis by (auto simp: one_step_invariant_def)
  qed
qed

lemma passes_escalated_fixed:
  "map_of (alerts st) k = Some a \<Longrightarrow> status a = ESCALATED \<Longrightarrow>
     map_of (alerts (escalation_passes cfg st nows)) k = Some a"
proof (induction nows arbitrary: st)
  case Nil
  then show ?case by simp
next
  case (Cons now nows)
  from check_escalations_map_of[OF Cons.prems(1), of cfg now] escalated_fixed[OF Cons.prems(2), of cfg now]
  have "map_of (alerts (snd (check_escalations cfg st now))) k = Some a" by auto
  then show ?case using Cons.IH Cons.prems(2) by simp
qed

lemma passes_invariant:
  "map_of (alerts st) k = Some a \<Longrightarrow> one_step_invariant a \<Longrightarrow>
     \<exists>a'. map_of (alerts (escalation_passes cfg st nows)) k = Some a' \<and> one_step_invariant a'"
proof (induction nows arbitrary: st a)
  case Nil
  then show ?case by simp
next
  case (Cons now nows)
  from check_escalations_map_of[OF Cons.prems(1), of cfg now]
  obtain a1 where a1: "escalate_alert cfg now a = Inr a1"
    "map_of (alerts (snd (check_escalations cfg st now))) k = Some a1" by blast
  have "one_step_invariant a1" using one_step_invariant_preserved[OF Cons.prems(2) a1(1)] .
  from Cons.IH[OF a1(2) this] show ?case by simp
qed

text \<open>
  Claim C10. An alert whose status is ESCALATED is left as it is by every later pass of
  \<^verbatim>\<open>check_escalations\<close>; and an alert at the level INITIAL is, after any number of passes
  at any times, at a level no higher than SUPERVISOR.
\<close>

theorem escalation_at_most_once:
  assumes "map_of (alerts st) k = Some a"
  shows "(status a = ESCALATED \<longrightarrow> map_of (alerts (escalation_passes cfg st nows)) k = Some a)
       \<and> (escalation_level a = INITIAL \<longrightarrow>
            (\<exists>a'. map_of (alerts (escalation_passes cfg st nows)) k = Some a'
                 \<and> escalation_value (escalation_level a') \<le> escalation_value SUPERVISOR))"
proof (intro conjI impI)
  assume "status a = ESCALATED"
  then show "map_of (alerts (escalation_passes cfg st nows)) k = Some a"
    using assms passes_escalated_fixed by blast
next
  assume "escalation_level a = INITIAL"
  then have "one_step_invariant a" by (simp add: one_step_invariant_def)
  from passes_invariant[OF assms this, of cfg nows]
  obtain a' where "map_of (alerts (escalation_passes cfg st nows)) k = Some a'" "one_step_invariant a'"
    by blast
  then show "\<exists>a'. map_of (alerts (escalation_passes cfg st nows)) k = Some a'
                 \<and> escalation_value (escalation_level a') \<le> escalation_value SUPERVISOR"
    by (auto simp: one_step_invariant_def)
qed

text \<open>
  Claim C10 at a HIGH alert created at time 1000 and passes at 1400, 1800 and 100000: the
  first pass escalates it to SUPERVISOR, the later ones leave it there.
\<close>

theorem escalation_at_most_once_witness:
  "(\<exists>a. map_of (alerts (state_with_alert CONFIRMED_TAMPERING 75)) ''alert_0123456789ab'' = Some a
       \<and> escalation_level a = INITIAL \<and> status a = ACTIVE)
   \<and> (\<exists>a'. map_of (alerts (escalation_passes config (state_with_alert CONFIRMED_TAMPERING 75)
                       [1400, 1800, 100000])) ''alert_0123456789ab'' = Some a'
          \<and> escalation_value (escalation_level a') \<le> escalation_value SUPERVISOR)
   \<and> (\<exists>a1. map_of (alerts (snd (check_escalations config
                       (state_with_alert CONFIRMED_TAMPERING 75) 1400))) ''alert_0123456789ab'' = Some a1
          \<and> status a1 = ESCALATED \<and> escalation_level a1 = SUPERVISOR
          \<and> map_of (alerts (escalation_passes config
                 (snd (check_escalations config (state_with_alert CONFIRMED_TAMPERING 75) 1400))
                 [1800, 100000])) ''alert_0123456789ab'' = Some a1)"
proof -
  obtain a where a: "map_of (alerts (state_with_alert CONFIRMED_TAMPERING 75)) ''alert_0123456789ab'' = Some a"
    "escalation_level a = INITIAL" "status a = ACTIVE"
    by (simp add: state_with_alert_75)
  obtain a1 where a1: "map_of (alerts (snd (check_escalations config
                       (state_with_alert CONFIRMED_TAMPERING 75) 1400))) ''alert_0123456789ab'' = Some a1"
     "status a1 = ESCALATED" "escalation_level a1 = SUPERVISOR"
    by (simp add: check_escalations_def state_with_alert_75 escalate_alert_def config_def
          EscalationLevel_of_def Let_def)
  show ?thesis
    using a a1
      escalation_at_most_once [OF a(1), of config "[1400, 1800, 100000]"]
      escalation_at_most_once [OF a1(1), of config "[1800, 100000]"]
    by auto
qed

subsection \<open>Run controller\<close>

text \<open>
  Claim C6, as amended. Whatever exception the cycle raises, \<^verbatim>\<open>run_single\<close> returns the
  failure payload, the state becomes ERROR and the error message is \<^verbatim>\<open>str(e)\<close>, which may be
  empty; the status message then shows the text \<^verbatim>\<open>Unknown error\<close> in its place. A
  following \<^verbatim>\<open>reset\<close> returns the state to STOPPED with the error cleared.
\<close>

theorem run_single_failure_then_reset:
  assumes "\<not> lock_locked c"
  shows "\<exists>c'. run_single c now_start (Inl e) now_end = Some (FailurePayload (exc_str e) ERROR, c')
            \<and> state c' = ERROR \<and> error_message c' = Some (exc_str e)
            \<and> status_message (get_status c')
                = InErrorState (if exc_str e = [] then ''Unknown error'' else exc_str e)
            \<and> (\<exists>c'' st. reset c' = Some (st, c'') \<and> state c'' = STOPPED \<and> error_message c'' = None
                   \<and> status_state st = STOPPED \<and> status_error_message st = None)"
  using assms
  by (simp add: run_single_def with_lock_def mark_running_def mark_error_def reset_def
        get_status_def get_status_message_def Let_def)

text \<open>
  Claim C6 as stated fails for an exception whose \<^verbatim>\<open>str\<close> is empty, such as a
  \<^verbatim>\<open>TimeoutError()\<close>: the recorded error message is the empty string.
\<close>

theorem run_single_empty_message_counterexample:
  "run_single SimulationController_init 0 (Inl (PyException ''TimeoutError'' [])) 1
     = Some (FailurePayload [] ERROR,
             \<lparr> state = ERROR, lock_locked = False, started_at = Some 0, last_run_at = None,
               run_count = 0, error_message = Some [] \<rparr>)"
  by (simp add: run_single_def with_lock_def mark_running_def mark_error_def SimulationController_init_def)

text \<open>The amended claim C6 at a \<^verbatim>\<open>ValueError\<close>, from the initial controller.\<close>

theorem run_single_failure_then_reset_witness:
  "\<not> lock_locked SimulationController_init
   \<and> (\<exists>c'. run_single SimulationController_init 10 (Inl (PyException ''ValueError'' ''bad reading'')) 11
              = Some (FailurePayload ''bad reading'' ERROR, c')
          \<and> state c' = ERROR \<and> error_message c' = Some ''bad reading''
          \<and> (\<exists>c'' st. reset c' = Some (st, c'') \<and> state c'' = STOPPED \<and> error_message c'' = None))"
proof -
  have h: "\<not> lock_locked SimulationController_init"
    by (simp add: SimulationController_init_def)
  show ?thesis
    using h run_single_failure_then_reset [OF h, of 10 "PyException ''ValueError'' ''bad reading''" 11]
    by auto
qed

text \<open>
  Claim C5 fails on the code. The lock is released at the end of the first locked block,
  before the cycle starts, so a second call of \<^verbatim>\<open>run_single\<close> made while the first is
  suspended inside its cycle takes the lock at once: both tasks are inside their cycles
  at the same time.
\<close>

theorem two_cycles_in_flight:
  "map_option (\<lambda>s. (place s 0, place s 1, state (controller s), lock_locked (controller s)))
     (run_segments [Enter 0 0, Enter 1 1] EventLoop_init)
   = Some (InCycle, InCycle, RUNNING, False)"
  by (simp add: run_segment_def with_lock_def mark_running_def EventLoop_init_def SimulationController_init_def)

text \<open>
  The lock is free whenever the event loop chooses the next segment, so no call of
  \<^verbatim>\<open>run_single\<close> ever waits for it.
\<close>

lemma with_lock_unlocked: "with_lock body c = Some c' \<Longrightarrow> \<not> lock_locked c'"
  by (auto simp: with_lock_def split: if_splits)

lemma run_segment_unlocked:
  "run_segment seg s = Some s' \<Longrightarrow> \<not> lock_locked (controller s')"
  by (auto simp: run_segment_def split: Segment.splits if_splits option.splits dest: with_lock_unlocked)

lemma lock_free_between_segments:
  "\<not> lock_locked (controller s) \<Longrightarrow> run_segments segs s = Some s' \<Longrightarrow> \<not> lock_locked (controller s')"
  by (induction segs arbitrary: s) (auto split: option.splits dest: run_segment_unlocked)

lemma enter_never_waits:
  assumes "run_segments segs EventLoop_init = Some s" and "place s task = Called"
  shows "run_segment (Enter task now) s \<noteq> None"
proof -
  have "\<not> lock_locked (controller s)"
    using lock_free_between_segments[OF _ assms(1)]
    by (simp add: EventLoop_init_def SimulationController_init_def)
  then show ?thesis using assms(2)
    by (simp add: run_segment_def with_lock_def)
qed

end
